theory Spec2Isabelle
  imports Main "HOL-Library.Sublist" "HOL-Library.AList"
begin


section \<open>JavaScript values and strings\<close>

text \<open>
  Strings are \<^typ>\<open>string\<close>: the text as a list of bytes (UTF-8). All MCU identifiers,
  tokens and file names of the program are ASCII. \<open>includes_str s t\<close> is
  \<^verbatim>\<open>s.includes(t)\<close>: \<open>t\<close> occurs in \<open>s\<close> as a contiguous run (case-sensitive).
\<close>

definition includes_str :: "string \<Rightarrow> string \<Rightarrow> bool" where
  "includes_str s t = sublist t s"

text \<open>
  The values a parsed JSON file can hold. A property that is absent from an object
  (\<^verbatim>\<open>undefined\<close>) is \<open>None\<close> of an option type. Finite numbers are kept as
  integers: the program only copies them. \<open>JInfinity\<close> is a non-finite number, which
  \<^verbatim>\<open>JSON.parse\<close> gives for a literal beyond the range of a double, such as
  \<^verbatim>\<open>1e999\<close>.
\<close>

datatype jsonval =
    JNull
  | JBool bool
  | JNum int
  | JInfinity
  | JStr string
  | JArr "jsonval list"
  | JObj "(string \<times> jsonval) list"

datatype jsError = TypeError | SyntaxError | IOError

text \<open>JavaScript truthiness, as tested by \<^verbatim>\<open>!x\<close>, \<^verbatim>\<open>x || y\<close> and \<^verbatim>\<open>if (x)\<close>.\<close>

fun truthy :: "jsonval option \<Rightarrow> bool" where
  "truthy None = False"
| "truthy (Some JNull) = False"
| "truthy (Some (JBool b)) = b"
| "truthy (Some (JNum n)) = (n \<noteq> 0)"
| "truthy (Some JInfinity) = True"
| "truthy (Some (JStr s)) = (s \<noteq> [])"
| "truthy (Some (JArr xs)) = True"
| "truthy (Some (JObj kvs)) = True"

text \<open>\<^verbatim>\<open>a || b\<close> on two values.\<close>

definition js_or :: "jsonval option \<Rightarrow> jsonval option \<Rightarrow> jsonval option" where
  "js_or a b = (if truthy a then a else b)"

text \<open>
  The project configuration is a JavaScript object with dynamic keys (it is built by
  spreading a parsed JSON object over the defaults): a map from property names to values.
\<close>

type_synonym config = "string \<rightharpoonup> jsonval"

section \<open>MCU parameter lookup (ConfigManager.getMCUParams)\<close>

record MCUParams =
  cpu :: string
  fpu :: string
  floatAbi :: string
  startupFile :: string
  mcuDefine :: string
  series :: string

text \<open>
  The \<^verbatim>\<open>if / else if\<close> chain of \<^verbatim>\<open>getMCUParams\<close>, in the order of the source. The
  test \<^verbatim>\<open>mcuName.includes(k)\<close> is the parameter \<open>inc\<close>, since \<^verbatim>\<open>includes\<close> is
  the substring test on a string and the membership test on an array.
\<close>

definition mcuParamsChain :: "(string \<Rightarrow> bool) \<Rightarrow> MCUParams" where
  "mcuParamsChain inc =
    (if inc ''STM32F407'' then
       \<lparr>cpu = ''-mcpu=cortex-m4'', fpu = ''-mfpu=fpv4-sp-d16'', floatAbi = ''-mfloat-abi=hard'',
        startupFile = ''startup_stm32f407xx'', mcuDefine = ''STM32F407xx'', series = ''f4''\<rparr>
     else if inc ''STM32F401'' then
       \<lparr>cpu = ''-mcpu=cortex-m4'', fpu = ''-mfpu=fpv4-sp-d16'', floatAbi = ''-mfloat-abi=hard'',
        startupFile = ''startup_stm32f401xx'', mcuDefine = ''STM32F401xx'', series = ''f4''\<rparr>
     else if inc ''STM32F411'' then
       \<lparr>cpu = ''-mcpu=cortex-m4'', fpu = ''-mfpu=fpv4-sp-d16'', floatAbi = ''-mfloat-abi=hard'',
        startupFile = ''startup_stm32f411xe'', mcuDefine = ''STM32F411xE'', series = ''f4''\<rparr>
     else if inc ''STM32F103'' then
       \<lparr>cpu = ''-mcpu=cortex-m3'', fpu = '''', floatAbi = '''',
        startupFile = ''startup_stm32f103xe'', mcuDefine = ''STM32F103xE'', series = ''f1''\<rparr>
     else if inc ''STM32F303'' then
       \<lparr>cpu = ''-mcpu=cortex-m4'', fpu = ''-mfpu=fpv4-sp-d16'', floatAbi = ''-mfloat-abi=hard'',
        startupFile = ''startup_stm32f303xc'', mcuDefine = ''STM32F303xC'', series = ''f3''\<rparr>
     else if inc ''STM32F030'' then
       \<lparr>cpu = ''-mcpu=cortex-m0'', fpu = '''', floatAbi = '''',
        startupFile = ''startup_stm32f030x8'', mcuDefine = ''STM32F030x8'', series = ''f0''\<rparr>
     else if inc ''STM32G0'' then
       \<lparr>cpu = ''-mcpu=cortex-m0plus'', fpu = '''', floatAbi = '''',
        startupFile = ''startup_stm32g071xx'', mcuDefine = ''STM32G071xx'', series = ''g0''\<rparr>
     else if inc ''STM32L4'' then
       \<lparr>cpu = ''-mcpu=cortex-m4'', fpu = ''-mfpu=fpv4-sp-d16'', floatAbi = ''-mfloat-abi=hard'',
        startupFile = ''startup_stm32l476xx'', mcuDefine = ''STM32L476xx'', series = ''l4''\<rparr>
     else if inc ''STM32H7'' then
       \<lparr>cpu = ''-mcpu=cortex-m7'', fpu = ''-mfpu=fpv5-d16'', floatAbi = ''-mfloat-abi=hard'',
        startupFile = ''startup_stm32h750xx'', mcuDefine = ''STM32H750xx'', series = ''h7''\<rparr>
     else
       \<lparr>cpu = ''-mcpu=cortex-m4'', fpu = ''-mfpu=fpv4-sp-d16'', floatAbi = ''-mfloat-abi=hard'',
        startupFile = ''startup_stm32f407xx'', mcuDefine = ''STM32F407xx'', series = ''f4''\<rparr>)"

text \<open>
  \<^verbatim>\<open>if (!mcuName) mcuName = this.projectConfig?.mcu || 'STM32F407VG'\<close>: the identifier
  the lookup works on.
\<close>

definition effectiveMcuName :: "config \<Rightarrow> jsonval option \<Rightarrow> jsonval option" where
  "effectiveMcuName cfg mcuName =
    (if \<not> truthy mcuName then js_or (cfg ''mcu'') (Some (JStr ''STM32F407VG''))
     else mcuName)"

text \<open>
  \<^verbatim>\<open>getMCUParams(mcuName)\<close>. A truthy value that is neither a string nor an array has
  no \<^verbatim>\<open>includes\<close> method: the first test raises a TypeError.
\<close>

definition getMCUParams :: "config \<Rightarrow> jsonval option \<Rightarrow> jsError + MCUParams" where
  "getMCUParams cfg mcuName =
    (case effectiveMcuName cfg mcuName of
       Some (JStr s) \<Rightarrow> Inr (mcuParamsChain (\<lambda>k. includes_str s k))
     | Some (JArr xs) \<Rightarrow> Inr (mcuParamsChain (\<lambda>k. JStr k \<in> set xs))
     | _ \<Rightarrow> Inl TypeError)"

section \<open>Memory sizes (ConfigManager.getMemorySizes)\<close>

record MemorySizes =
  flash :: string
  ram :: string
  ccmram :: string

text \<open>\<^verbatim>\<open>s.charAt(i)\<close>: the one-character string at index \<open>i\<close>, the empty string out of range.\<close>

definition charAt :: "string \<Rightarrow> int \<Rightarrow> string" where
  "charAt s i = (if 0 \<le> i \<and> i < int (length s) then [s ! nat i] else [])"

text \<open>The object \<^verbatim>\<open>sizeMap\<close>: flash and RAM by memory code.\<close>

definition sizeMap :: "string \<Rightarrow> (string \<times> string) option" where
  "sizeMap code =
    (if code = ''V'' then Some (''1024K'', ''192K'')
     else if code = ''Z'' then Some (''1024K'', ''256K'')
     else if code = ''I'' then Some (''2048K'', ''256K'')
     else if code = ''G'' then Some (''512K'', ''128K'')
     else if code = ''C'' then Some (''256K'', ''64K'')
     else None)"

definition defaultSizes :: MemorySizes where
  "defaultSizes = \<lparr>flash = ''1024K'', ram = ''192K'', ccmram = ''64K''\<rparr>"

text \<open>
  \<^verbatim>\<open>getMemorySizes(mcuName)\<close>. \<^verbatim>\<open>charAt\<close> exists on strings only, so any other truthy
  value raises a TypeError before the lookup is reached.
\<close>

definition getMemorySizes :: "config \<Rightarrow> jsonval option \<Rightarrow> jsError + MemorySizes" where
  "getMemorySizes cfg mcuName0 =
    (let mcuName = effectiveMcuName cfg mcuName0 in
     if \<not> truthy mcuName then Inr defaultSizes
     else case mcuName of
       Some (JStr s) \<Rightarrow>
         (let memoryCode = charAt s (int (length s) - 3);
              sizes = (case sizeMap memoryCode of
                         Some fr \<Rightarrow> fr
                       | None \<Rightarrow> (flash defaultSizes, ram defaultSizes))
          in case getMCUParams cfg mcuName of
               Inl e \<Rightarrow> Inl e
             | Inr params \<Rightarrow>
                 (let hasCCMRAM = (series params = ''F4'' \<or> series params = ''F7''
                                   \<or> series params = ''H7'')
                  in Inr \<lparr>flash = fst sizes, ram = snd sizes,
                          ccmram = (if hasCCMRAM then ''64K'' else ''0K'')\<rparr>))
     | _ \<Rightarrow> Inl TypeError)"

section \<open>The MCU table as the specification words it\<close>

text \<open>
  The specification describes the lookup as a fixed ordered table of (substring,
  parameter set) pairs, first match wins, with the STM32F407 set as the default.
  \<open>mcuTable\<close> and \<open>lookupSpec\<close> follow these words; they are compared with
  \<open>getMCUParams\<close> below.
\<close>

definition mcuTable :: "(string \<times> MCUParams) list" where
  "mcuTable =
    [(''STM32F407'',
       \<lparr>cpu = ''-mcpu=cortex-m4'', fpu = ''-mfpu=fpv4-sp-d16'', floatAbi = ''-mfloat-abi=hard'',
        startupFile = ''startup_stm32f407xx'', mcuDefine = ''STM32F407xx'', series = ''f4''\<rparr>),
     (''STM32F401'',
       \<lparr>cpu = ''-mcpu=cortex-m4'', fpu = ''-mfpu=fpv4-sp-d16'', floatAbi = ''-mfloat-abi=hard'',
        startupFile = ''startup_stm32f401xx'', mcuDefine = ''STM32F401xx'', series = ''f4''\<rparr>),
     (''STM32F411'',
       \<lparr>cpu = ''-mcpu=cortex-m4'', fpu = ''-mfpu=fpv4-sp-d16'', floatAbi = ''-mfloat-abi=hard'',
        startupFile = ''startup_stm32f411xe'', mcuDefine = ''STM32F411xE'', series = ''f4''\<rparr>),
     (''STM32F103'',
       \<lparr>cpu = ''-mcpu=cortex-m3'', fpu = '''', floatAbi = '''',
        startupFile = ''startup_stm32f103xe'', mcuDefine = ''STM32F103xE'', series = ''f1''\<rparr>),
     (''STM32F303'',
       \<lparr>cpu = ''-mcpu=cortex-m4'', fpu = ''-mfpu=fpv4-sp-d16'', floatAbi = ''-mfloat-abi=hard'',
        startupFile = ''startup_stm32f303xc'', mcuDefine = ''STM32F303xC'', series = ''f3''\<rparr>),
     (''STM32F030'',
       \<lparr>cpu = ''-mcpu=cortex-m0'', fpu = '''', floatAbi = '''',
        startupFile = ''startup_stm32f030x8'', mcuDefine = ''STM32F030x8'', series = ''f0''\<rparr>),
     (''STM32G0'',
       \<lparr>cpu = ''-mcpu=cortex-m0plus'', fpu = '''', floatAbi = '''',
        startupFile = ''startup_stm32g071xx'', mcuDefine = ''STM32G071xx'', series = ''g0''\<rparr>),
     (''STM32L4'',
       \<lparr>cpu = ''-mcpu=cortex-m4'', fpu = ''-mfpu=fpv4-sp-d16'', floatAbi = ''-mfloat-abi=hard'',
        startupFile = ''startup_stm32l476xx'', mcuDefine = ''STM32L476xx'', series = ''l4''\<rparr>),
     (''STM32H7'',
       \<lparr>cpu = ''-mcpu=cortex-m7'', fpu = ''-mfpu=fpv5-d16'', floatAbi = ''-mfloat-abi=hard'',
        startupFile = ''startup_stm32h750xx'', mcuDefine = ''STM32H750xx'', series = ''h7''\<rparr>)]"

definition lookupSpec :: "string \<Rightarrow> MCUParams" where
  "lookupSpec mcuIdentifier =
    (case find (\<lambda>entry. includes_str mcuIdentifier (fst entry)) mcuTable of
       Some entry \<Rightarrow> snd entry
     | None \<Rightarrow> snd (hd mcuTable))"

section \<open>Project configuration store (ConfigManager)\<close>

text \<open>
  The manager object: the workspace path (\<open>None\<close> when no folder is open), the
  platform name and the configuration in memory.
\<close>

record manager =
  workspacePath :: "string option"
  currentPlatform :: string
  projectConfig :: config

text \<open>\<^verbatim>\<open>!this.workspacePath\<close> is true for \<^verbatim>\<open>null\<close> and for the empty string.\<close>

definition hasWorkspace :: "manager \<Rightarrow> bool" where
  "hasWorkspace m = (case workspacePath m of None \<Rightarrow> False | Some p \<Rightarrow> p \<noteq> [])"

definition getDefaultProgrammerPath :: "string \<Rightarrow> string" where
  "getDefaultProgrammerPath platform =
    (if platform = ''darwin'' then
       ''/Applications/STM32CubeIDE.app/Contents/Eclipse/plugins/com.st.stm32cube.ide.mcu.externaltools.cubeprogrammer.macos64_2.2.300.202508131133/tools/bin/STM32_Programmer_CLI''
     else if platform = ''win32'' then
       ''C:'' @ [CHR 0x5C] @ ''Program Files'' @ [CHR 0x5C] @ ''STMicroelectronics''
         @ [CHR 0x5C] @ ''STM32Cube'' @ [CHR 0x5C] @ ''STM32CubeProgrammer''
         @ [CHR 0x5C] @ ''bin'' @ [CHR 0x5C] @ ''STM32_Programmer_CLI.exe''
     else ''/usr/local/bin/STM32_Programmer_CLI'')"

definition getDefaultGccPath :: "string \<Rightarrow> string" where
  "getDefaultGccPath platform =
    (if platform = ''darwin'' then
       ''/Applications/STM32CubeIDE.app/Contents/Eclipse/plugins/com.st.stm32cube.ide.mcu.externaltools.gnu-tools-for-stm32.13.3.rel1.macos64_1.0.100.202509120712/tools/bin/arm-none-eabi-gcc''
     else if platform = ''win32'' then
       ''C:'' @ [CHR 0x5C] @ ''Program Files (x86)'' @ [CHR 0x5C] @ ''GNU Arm Embedded Toolchain''
         @ [CHR 0x5C] @ ''10 2021.10'' @ [CHR 0x5C] @ ''bin'' @ [CHR 0x5C]
         @ ''arm-none-eabi-gcc.exe''
     else ''/usr/bin/arm-none-eabi-gcc'')"

definition serialPortPattern :: "string \<Rightarrow> string" where
  "serialPortPattern platform =
    (if platform = ''win32'' then ''COM*''
     else if platform = ''darwin'' then ''/dev/tty*usb*''
     else if platform = ''linux'' then ''/dev/ttyUSB*''
     else ''/dev/ttyUSB*'')"

text \<open>The object literal returned by \<^verbatim>\<open>getDefaultConfig\<close>, property by property.\<close>

definition defaultProperties :: "string \<Rightarrow> (string \<times> jsonval) list" where
  "defaultProperties platform =
    [(''projectName'', JStr ''STM32F407VGT6''),
     (''mcu'', JStr ''STM32F407VGTx''),
     (''mcuFamily'', JStr ''STM32F4''),
     (''compilerLinker'', JStr ''GCC''),
     (''stackSize'', JStr ''0x400''),
     (''heapSize'', JStr ''0x200''),
     (''sysClockFreq'', JStr ''8000000''),
     (''serialPort'', JStr (serialPortPattern platform)),
     (''baudRate'', JNum 115200),
     (''programmerPath'', JStr (getDefaultProgrammerPath platform)),
     (''gccPath'', JStr (getDefaultGccPath platform)),
     (''sourceDirs'', JArr [JStr ''Core/Src'', JStr ''Drivers/STM32F4xx_HAL_Driver/Src'']),
     (''excludeFiles'', JArr []),
     (''includeDirs'', JArr [JStr ''Core/Inc'',
                            JStr ''Drivers/STM32F4xx_HAL_Driver/Inc'',
                            JStr ''Drivers/CMSIS/Include'',
                            JStr ''Drivers/CMSIS/Device/ST/STM32F4xx/Include'',
                            JStr ''Drivers/STM32F4xx_HAL_Driver/Inc/Legacy'']),
     (''autoUpdateMakefile'', JBool True),
     (''preferredMonitor'', JStr ''auto''),
     (''clearBufferOnStart'', JBool True),
     (''monitorTimeout'', JNum 3000),
     (''ldscript'', JNull),
     (''startupFile'', JNull),
     (''ldscriptPath'', JNull),
     (''startupFilePath'', JNull),
     (''configInitialized'', JBool False)]"

definition getDefaultConfig :: "string \<Rightarrow> config" where
  "getDefaultConfig platform = map_of (defaultProperties platform)"

subsection \<open>Object spread\<close>

text \<open>Decimal notation of an array index, as a property name.\<close>

fun decimal :: "nat \<Rightarrow> string" where
  "decimal n =
    (if n < 10 then [''0123456789'' ! n]
     else decimal (n div 10) @ [''0123456789'' ! (n mod 10)])"

text \<open>
  The own enumerable properties of a value, in the order the spread copies them: the
  properties of an object, the indexed elements of an array, the indexed characters of a
  string (one property per byte here; the program's strings are ASCII), none for
  \<^verbatim>\<open>null\<close>, a boolean or a number.
\<close>

fun ownProperties :: "jsonval \<Rightarrow> (string \<times> jsonval) list" where
  "ownProperties (JObj kvs) = kvs"
| "ownProperties (JArr xs) = map (\<lambda>(i, x). (decimal i, x)) (enumerate 0 xs)"
| "ownProperties (JStr s) = map (\<lambda>(i, c). (decimal i, JStr [c])) (enumerate 0 s)"
| "ownProperties JNull = []"
| "ownProperties (JBool b) = []"
| "ownProperties (JNum n) = []"
| "ownProperties JInfinity = []"

text \<open>
  \<^verbatim>\<open>{ ...base, ...v }\<close>: every own property of \<open>v\<close> is assigned over \<open>base\<close>, in
  order, so a later property of the same name wins.
\<close>

definition assign :: "config \<Rightarrow> string \<times> jsonval \<Rightarrow> config" where
  "assign obj kv = obj(fst kv \<mapsto> snd kv)"

definition spread :: "config \<Rightarrow> jsonval \<Rightarrow> config" where
  "spread base v = foldl assign base (ownProperties v)"

subsection \<open>Loading and saving\<close>

text \<open>
  The file \<^verbatim>\<open>.stm32-config.json\<close> of the workspace: absent, present but not readable
  (\<^verbatim>\<open>readFileSync\<close> throws), or present with a text.
\<close>

datatype fileState = Absent | Unreadable | Content string

text \<open>
  The body of the \<^verbatim>\<open>try\<close> block of \<^verbatim>\<open>loadConfig\<close>:
  \<^verbatim>\<open>JSON.parse(fs.readFileSync(configPath, 'utf8'))\<close>. \<open>JSON_parse\<close> is the library
  function; it returns \<open>Inl SyntaxError\<close> on a malformed text.
\<close>

definition readAndParse ::
  "(string \<Rightarrow> jsError + jsonval) \<Rightarrow> fileState \<Rightarrow> jsError + jsonval" where
  "readAndParse JSON_parse configFile =
    (case configFile of
       Absent \<Rightarrow> Inl IOError
     | Unreadable \<Rightarrow> Inl IOError
     | Content text \<Rightarrow> JSON_parse text)"

text \<open>
  \<^verbatim>\<open>loadConfig()\<close>. The \<^verbatim>\<open>catch\<close> turns every error of the \<^verbatim>\<open>try\<close> block into the
  default configuration. The closing call of \<^verbatim>\<open>updateCppProperties\<close> is an
  \<^verbatim>\<open>async\<close> function that is not awaited: it writes \<^verbatim>\<open>c_cpp_properties.json\<close> only,
  and an exception in it rejects its promise instead of reaching \<^verbatim>\<open>loadConfig\<close>.
\<close>

definition loadConfig ::
  "(string \<Rightarrow> jsError + jsonval) \<Rightarrow> fileState \<Rightarrow> manager \<Rightarrow> manager" where
  "loadConfig JSON_parse configFile m =
    (if \<not> hasWorkspace m then m\<lparr>projectConfig := getDefaultConfig (currentPlatform m)\<rparr>
     else
       let defaultConfig = getDefaultConfig (currentPlatform m) in
       if configFile \<noteq> Absent then
         (case readAndParse JSON_parse configFile of
            Inr parsedConfig \<Rightarrow> m\<lparr>projectConfig := spread defaultConfig parsedConfig\<rparr>
          | Inl e \<Rightarrow> m\<lparr>projectConfig := defaultConfig\<rparr>)
       else m\<lparr>projectConfig := defaultConfig\<rparr>)"

text \<open>
  \<^verbatim>\<open>saveConfig()\<close>, on the file and the manager; \<open>writable\<close> says whether
  \<^verbatim>\<open>writeFileSync\<close> succeeds; a failed write leaves the file as it was. After a
  successful write the configuration is reloaded from the file. The result is the
  returned boolean, the file and the manager. (The configuration of a constructed
  manager is never \<^verbatim>\<open>null\<close>, so only the workspace half of the guard can fire.)
\<close>

definition saveConfig ::
  "(string \<Rightarrow> jsError + jsonval) \<Rightarrow> (config \<Rightarrow> string) \<Rightarrow> bool \<Rightarrow> fileState \<Rightarrow> manager
     \<Rightarrow> bool \<times> fileState \<times> manager" where
  "saveConfig JSON_parse JSON_stringify writable configFile m =
    (if \<not> hasWorkspace m then (False, configFile, m)
     else if \<not> writable then (False, configFile, m)
     else
       let written = Content (JSON_stringify (projectConfig m)) in
       (True, written, loadConfig JSON_parse written m))"

text \<open>
  \<open>jsonRoundTrip\<close>: parsing the text that \<^verbatim>\<open>JSON.stringify\<close> produced for the
  configuration \<open>c\<close> gives back a value with exactly the properties of \<open>c\<close>. The
  JSON library does so for a configuration that holds no non-finite number.
\<close>

definition jsonRoundTrip ::
  "(string \<Rightarrow> jsError + jsonval) \<Rightarrow> (config \<Rightarrow> string) \<Rightarrow> config \<Rightarrow> bool" where
  "jsonRoundTrip JSON_parse JSON_stringify c =
    (case JSON_parse (JSON_stringify c) of
       Inr v \<Rightarrow> spread Map.empty v = c
     | Inl e \<Rightarrow> False)"

text \<open>
  What \<^verbatim>\<open>JSON.parse\<close> reads back from the text that \<^verbatim>\<open>JSON.stringify\<close> writes for
  a value: a non-finite number is written as \<^verbatim>\<open>null\<close>, inside arrays and objects too;
  \<^verbatim>\<open>null\<close>, booleans, finite numbers and strings are read back as they were.
\<close>

primrec stringified :: "jsonval \<Rightarrow> jsonval" where
  "stringified JNull = JNull"
| "stringified (JBool b) = JBool b"
| "stringified (JNum n) = JNum n"
| "stringified JInfinity = JNull"
| "stringified (JStr s) = JStr s"
| "stringified (JArr xs) = JArr (map stringified xs)"
| "stringified (JObj kvs) = JObj (map (map_prod id stringified) kvs)"

text \<open>
  \<open>jsonSaveLoad\<close>: the text that \<^verbatim>\<open>JSON.stringify\<close> produced for the configuration
  \<open>c\<close> parses, to an object with the properties of \<open>c\<close>, each holding what is read
  back of its value (\<open>stringified\<close>). Unlike \<open>jsonRoundTrip\<close> it does not ask that
  a non-finite number survives the text.
\<close>

definition jsonSaveLoad ::
  "(string \<Rightarrow> jsError + jsonval) \<Rightarrow> (config \<Rightarrow> string) \<Rightarrow> config \<Rightarrow> bool" where
  "jsonSaveLoad JSON_parse JSON_stringify c =
    (case JSON_parse (JSON_stringify c) of
       Inr v \<Rightarrow> spread Map.empty v = map_option stringified \<circ> c
     | Inl e \<Rightarrow> False)"

section \<open>File-system resolver (ConfigManager.findLinkerScript, findStartupFile)\<close>

subsection \<open>String helpers of the JavaScript library\<close>

definition isDigit :: "char \<Rightarrow> bool" where
  "isDigit c = (c \<in> set ''0123456789'')"

definition isUpper :: "char \<Rightarrow> bool" where
  "isUpper c = (c \<in> set ''ABCDEFGHIJKLMNOPQRSTUVWXYZ'')"

text \<open>\<^verbatim>\<open>toUpperCase\<close> and \<^verbatim>\<open>toLowerCase\<close> on ASCII text.\<close>

definition toUpperCase :: "string \<Rightarrow> string" where
  "toUpperCase s =
    map (\<lambda>c. case map_of (zip ''abcdefghijklmnopqrstuvwxyz'' ''ABCDEFGHIJKLMNOPQRSTUVWXYZ'') c of
               Some u \<Rightarrow> u | None \<Rightarrow> c) s"

definition toLowerCase :: "string \<Rightarrow> string" where
  "toLowerCase s =
    map (\<lambda>c. case map_of (zip ''ABCDEFGHIJKLMNOPQRSTUVWXYZ'' ''abcdefghijklmnopqrstuvwxyz'') c of
               Some l \<Rightarrow> l | None \<Rightarrow> c) s"

text \<open>\<^verbatim>\<open>s.replace(pat, rep)\<close> with a string pattern: the first occurrence only.\<close>

fun replaceFirst :: "string \<Rightarrow> string \<Rightarrow> string \<Rightarrow> string" where
  "replaceFirst [] pat rep = (if pat = [] then rep else [])"
| "replaceFirst (c # cs) pat rep =
    (if prefix pat (c # cs) then rep @ drop (length pat) (c # cs)
     else c # replaceFirst cs pat rep)"

text \<open>\<^verbatim>\<open>s.replace(/\.\./g, '.')\<close>: every pair of dots, left to right, becomes one dot.\<close>

fun collapseDots :: "string \<Rightarrow> string" where
  "collapseDots (c # d # cs) =
    (if c = CHR ''.'' \<and> d = CHR ''.'' then CHR ''.'' # collapseDots cs
     else c # collapseDots (d # cs))"
| "collapseDots cs = cs"

text \<open>
  \<^verbatim>\<open>path.basename(p)\<close> for POSIX paths: the last component, trailing separators
  dropped. \<^verbatim>\<open>path.basename(p, ext)\<close> also drops the suffix \<open>ext\<close> of the component,
  unless the component is the suffix itself; the paths given to it are paths of files,
  without a trailing separator.
\<close>

definition basename :: "string \<Rightarrow> string" where
  "basename p = rev (takeWhile (\<lambda>c. c \<noteq> CHR ''/'') (dropWhile (\<lambda>c. c = CHR ''/'') (rev p)))"

definition basenameExt :: "string \<Rightarrow> string \<Rightarrow> string" where
  "basenameExt p ext =
    (if ext \<noteq> [] \<and> length ext \<le> length p then
       (if ext = p then []
        else let b = basename p in
          if suffix ext b \<and> b \<noteq> ext then take (length b - length ext) b else b)
     else basename p)"

text \<open>
  \<^verbatim>\<open>path.join(workspacePath, ...)\<close>: the workspace path is the normalised path of the
  open folder and the other segments are plain names, so joining only inserts separators.
\<close>

fun pathJoin :: "string list \<Rightarrow> string" where
  "pathJoin [] = ''.''"
| "pathJoin [seg] = seg"
| "pathJoin (seg # segs) = seg @ ''/'' @ pathJoin segs"

text \<open>\<^verbatim>\<open>[...new Set(xs)]\<close>: duplicates removed, first occurrences kept in order.\<close>

definition dedupe :: "string list \<Rightarrow> string list" where
  "dedupe xs = foldl (\<lambda>acc x. if x \<in> set acc then acc else acc @ [x]) [] xs"

subsection \<open>Expected linker name\<close>

text \<open>
  \<^verbatim>\<open>baseName.match(/STM32(F\d+[A-Z]*[A-Z])/)\<close> at the start of \<open>s\<close>: after
  \<^verbatim>\<open>STM32F\<close> at least one digit, then at least one capital letter; both runs are
  taken as long as they go. The result is the captured group.
\<close>

definition variantAt :: "string \<Rightarrow> string option" where
  "variantAt s =
    (if prefix ''STM32F'' s then
       (let r = drop 6 s;
            ds = takeWhile isDigit r;
            us = takeWhile isUpper (dropWhile isDigit r)
        in if ds \<noteq> [] \<and> us \<noteq> [] then Some (''F'' @ ds @ us) else None)
     else None)"

text \<open>The leftmost match in the string.\<close>

fun matchVariant :: "string \<Rightarrow> string option" where
  "matchVariant [] = None"
| "matchVariant (c # cs) =
    (case variantAt (c # cs) of Some v \<Rightarrow> Some v | None \<Rightarrow> matchVariant cs)"

text \<open>\<^verbatim>\<open>getExpectedLinkerName(mcuName)\<close>; \<^verbatim>\<open>/\d+$/\<close> strips the digits at the end.\<close>

definition getExpectedLinkerName :: "string \<Rightarrow> string" where
  "getExpectedLinkerName mcuName =
    (if mcuName = [] then ''STM32F407XX_FLASH.ld''
     else
       let baseName = rev (dropWhile isDigit (rev mcuName)) in
       case matchVariant baseName of
         Some variant \<Rightarrow> ''STM32'' @ variant @ ''_FLASH.ld''
       | None \<Rightarrow> collapseDots (mcuName @ ''_FLASH.ld''))"

subsection \<open>Searching the workspace\<close>

text \<open>
  \<^verbatim>\<open>vscode.workspace.findFiles(pattern, '**/node_modules/**')\<close> is the parameter
  \<open>findFiles\<close>: for a pattern, the paths found, or an error when the search is rejected.
  The loop over the patterns appends the results; the first error leaves the loop.
\<close>

fun searchAll :: "(string \<Rightarrow> jsError + string list) \<Rightarrow> string list \<Rightarrow> jsError + string list" where
  "searchAll findFiles [] = Inr []"
| "searchAll findFiles (pattern # patterns) =
    (case findFiles pattern of
       Inl e \<Rightarrow> Inl e
     | Inr files \<Rightarrow>
         (case searchAll findFiles patterns of
            Inl e \<Rightarrow> Inl e
          | Inr others \<Rightarrow> Inr (files @ others)))"

definition linkerPatterns :: "string list" where
  "linkerPatterns = [''**/*.ld'', ''**/*.LD'', ''**/STM32*_FLASH.ld'', ''**/*_FLASH.ld'']"

text \<open>\<^verbatim>\<open>preferredLd || foundFiles[0]\<close>; the list is not empty where this is used.\<close>

definition preferredOrFirst :: "string option \<Rightarrow> string list \<Rightarrow> string" where
  "preferredOrFirst preferred found =
    (case preferred of
       Some p \<Rightarrow> (if p \<noteq> [] then p else hd found)
     | None \<Rightarrow> hd found)"

text \<open>
  \<^verbatim>\<open>findLinkerScript()\<close>. The result is \<open>None\<close> for \<^verbatim>\<open>null\<close>, else the pair
  (\<^verbatim>\<open>ldscript\<close>, \<^verbatim>\<open>ldscriptPath\<close>); the third property \<^verbatim>\<open>relativePath\<close> is read by
  no caller and is left out. Every error inside the \<^verbatim>\<open>try\<close> block is caught and gives
  \<^verbatim>\<open>null\<close>: a rejected search, and \<^verbatim>\<open>mcuName.replace\<close> on a truthy value that is not
  a string.
\<close>

definition findLinkerScript ::
  "(string \<Rightarrow> jsError + string list) \<Rightarrow> manager \<Rightarrow> (string \<times> string) option" where
  "findLinkerScript findFiles m =
    (if \<not> hasWorkspace m then None
     else case searchAll findFiles linkerPatterns of
       Inl e \<Rightarrow> None
     | Inr allFound \<Rightarrow>
         (let foundFiles = dedupe allFound in
          if foundFiles = [] then None
          else
            let mcuName = projectConfig m ''mcu'' in
            if truthy mcuName then
              (case mcuName of
                 Some (JStr s) \<Rightarrow>
                   (let expectedLdName = getExpectedLinkerName s;
                        preferredLd = find (\<lambda>f. basename f = expectedLdName
                                          \<or> includes_str f (replaceFirst expectedLdName ''.ld'' ''''))
                                        foundFiles;
                        selectedLd = preferredOrFirst preferredLd foundFiles
                    in Some (basename selectedLd, selectedLd))
               | _ \<Rightarrow> None)
            else
              (let selectedLd = hd foundFiles in Some (basename selectedLd, selectedLd))))"

definition startupPaths :: "string \<Rightarrow> MCUParams \<Rightarrow> string list" where
  "startupPaths ws mcuParams =
    (let startupFileName = startupFile mcuParams @ ''.s'' in
     [pathJoin [ws, startupFileName],
      pathJoin [ws, ''Startup'', startupFileName],
      pathJoin [ws, ''startups'', startupFileName],
      pathJoin [ws, ''Core'', ''Startup'', startupFileName],
      pathJoin [ws, ''Drivers'', ''CMSIS'', ''Device'', ''ST'',
                ''STM32'' @ toUpperCase (series mcuParams) @ ''xx'',
                ''Source'', ''Templates'', ''gcc'', startupFileName]])"

definition startupPatterns :: "MCUParams \<Rightarrow> string list" where
  "startupPatterns mcuParams =
    [''**/*startup*.s'', ''**/startup*.S'', ''**/startup_*.s'',
     ''**/startup_stm32'' @ series mcuParams @ ''*.s'']"

text \<open>
  The test of \<^verbatim>\<open>allStartupFiles.find\<close>: the path contains the startup-file token, or
  the define token put in lower case with its first \<^verbatim>\<open>xx\<close> removed.
\<close>

definition suitableStartup :: "MCUParams \<Rightarrow> string \<Rightarrow> bool" where
  "suitableStartup mcuParams f =
    (includes_str f (startupFile mcuParams)
     \<or> includes_str f (replaceFirst (toLowerCase (mcuDefine mcuParams)) ''xx'' ''''))"

text \<open>\<^verbatim>\<open>path.basename(p, '.s').replace('.S', '')\<close>.\<close>

definition startupName :: "string \<Rightarrow> string" where
  "startupName p = replaceFirst (basenameExt p ''.s'') ''.S'' ''''"

text \<open>
  \<^verbatim>\<open>findStartupFile()\<close>: first the probe of the fixed places with \<open>existsSync\<close>, then
  the search. The result is \<open>None\<close> for \<^verbatim>\<open>null\<close>, else the pair (\<^verbatim>\<open>startupFile\<close>,
  \<^verbatim>\<open>startupFilePath\<close>).
\<close>

definition findStartupFile ::
  "(string \<Rightarrow> bool) \<Rightarrow> (string \<Rightarrow> jsError + string list) \<Rightarrow> manager
     \<Rightarrow> (string \<times> string) option" where
  "findStartupFile existsSync findFiles m =
    (if \<not> hasWorkspace m then None
     else case getMCUParams (projectConfig m) (projectConfig m ''mcu'') of
       Inl e \<Rightarrow> None
     | Inr mcuParams \<Rightarrow>
         (case find existsSync (startupPaths (the (workspacePath m)) mcuParams) of
            Some startupPath \<Rightarrow> Some (startupName startupPath, startupPath)
          | None \<Rightarrow>
              (case searchAll findFiles (startupPatterns mcuParams) of
                 Inl e \<Rightarrow> None
               | Inr allFound \<Rightarrow>
                   (let allStartupFiles = dedupe allFound in
                    if allStartupFiles \<noteq> [] then
                      (let suitableFile =
                             preferredOrFirst (find (suitableStartup mcuParams) allStartupFiles)
                               allStartupFiles
                       in Some (startupName suitableFile, suitableFile))
                    else None))))"

section \<open>Makefile generator (MakefileGenerator.generate, generateContent)\<close>

text \<open>
  The generator reads the configuration through typed accesses (\<^verbatim>\<open>sourceDirs.map\<close>,
  string interpolation). It is modelled on configurations whose properties have the types
  of the default configuration; \<open>ProjectConfig\<close> is this typed view, with the properties
  the generator reads. \<open>None\<close> is \<^verbatim>\<open>null\<close>; an absent \<^verbatim>\<open>excludeFiles\<close> behaves as
  the empty list. The property \<^verbatim>\<open>startupFile\<close> of the configuration is the field
  \<open>cfgStartupFile\<close>, since the MCU parameters have a field of the same name.
\<close>

record ProjectConfig =
  projectName :: string
  mcu :: string
  sourceDirs :: "string list"
  excludeFiles :: "string list"
  includeDirs :: "string list"
  ldscript :: "string option"
  cfgStartupFile :: "string option"

definition nl :: string where "nl = [CHR 0x0A]"
definition tab :: string where "tab = [CHR 0x09]"
definition bslash :: string where "bslash = [CHR 0x5C]"
definition dquote :: string where "dquote = [CHR 0x22]"

text \<open>\<^verbatim>\<open>xs.join(sep)\<close>.\<close>

fun joinWith :: "string \<Rightarrow> string list \<Rightarrow> string" where
  "joinWith sep [] = []"
| "joinWith sep [x] = x"
| "joinWith sep (x # y # ys) = x @ sep @ joinWith sep (y # ys)"

text \<open>
  \<^verbatim>\<open>excludeRule\<close>: empty unless \<^verbatim>\<open>excludeFiles\<close> has an element. Its comment line
  is \<open>excludeComment\<close>; the two Russian words of it are given by their UTF-8 bytes, as
  are all Russian comments below.
\<close>

definition excludeComment :: string where
  "excludeComment =
     ''# '' @ [CHR 0xD0, CHR 0x98, CHR 0xD1, CHR 0x81, CHR 0xD0, CHR 0xBA, CHR 0xD0, CHR 0xBB,
       CHR 0xD1, CHR 0x8E, CHR 0xD1, CHR 0x87, CHR 0xD0, CHR 0xB0, CHR 0xD0, CHR 0xB5, CHR 0xD0,
       CHR 0xBC, CHR 0xD1, CHR 0x8B, CHR 0xD0, CHR 0xB5] @ '' '' @ [CHR 0xD1, CHR 0x84,
       CHR 0xD0, CHR 0xB0, CHR 0xD0, CHR 0xB9, CHR 0xD0, CHR 0xBB, CHR 0xD1, CHR 0x8B]"

definition excludeRule :: "ProjectConfig \<Rightarrow> string" where
  "excludeRule cfg =
    (if length (excludeFiles cfg) > 0 then
       nl @ excludeComment @ nl @ ''C_SOURCES := $(filter-out ''
         @ joinWith '' '' (map (\<lambda>f. ''%'' @ f) (excludeFiles cfg))
         @ '', $(C_SOURCES))''
     else [])"

text \<open>
  The two lists of the template, \<^verbatim>\<open>sourceDirs.map(...).join(' \\\n')\<close> with the
  \<^verbatim>\<open>wildcard\<close> entries and \<^verbatim>\<open>includeDirs.map(...).join(' \\\n')\<close> with the
  \<^verbatim>\<open>-I\<close> flags.
\<close>

definition cSourcesList :: "ProjectConfig \<Rightarrow> string" where
  "cSourcesList cfg =
    joinWith ('' '' @ bslash @ nl)
      (map (\<lambda>dir. tab @ ''$(wildcard '' @ dir @ ''/*.c)'') (sourceDirs cfg))"

definition cIncludesList :: "ProjectConfig \<Rightarrow> string" where
  "cIncludesList cfg =
    joinWith ('' '' @ bslash @ nl) (map (\<lambda>dir. tab @ ''-I'' @ dir) (includeDirs cfg))"

text \<open>
  The template literal of \<^verbatim>\<open>generateContent\<close>, one list element per line of the
  template, in order. \<open>projName\<close> is the parameter \<^verbatim>\<open>projectName\<close>; \<open>now\<close> is
  the string \<^verbatim>\<open>new Date().toLocaleString()\<close> gives when the function runs.
\<close>

definition makefileLines ::
  "string \<Rightarrow> string \<Rightarrow> string \<Rightarrow> string \<Rightarrow> MCUParams \<Rightarrow> ProjectConfig \<Rightarrow> string list" where
  "makefileLines now projName startupFileName ldscriptName mcuParams cfg =
     [''################################################################################'',
      ''# '' @ [CHR 0xD0, CHR 0x90, CHR 0xD0, CHR 0xB2, CHR 0xD1, CHR 0x82, CHR 0xD0,
        CHR 0xBE, CHR 0xD0, CHR 0xBC, CHR 0xD0, CHR 0xB0, CHR 0xD1, CHR 0x82, CHR 0xD0,
        CHR 0xB8, CHR 0xD1, CHR 0x87, CHR 0xD0, CHR 0xB5, CHR 0xD1, CHR 0x81, CHR 0xD0,
        CHR 0xBA, CHR 0xD0, CHR 0xB8] @ '' '' @ [CHR 0xD1, CHR 0x81, CHR 0xD0, CHR 0xB3,
        CHR 0xD0, CHR 0xB5, CHR 0xD0, CHR 0xBD, CHR 0xD0, CHR 0xB5, CHR 0xD1, CHR 0x80,
        CHR 0xD0, CHR 0xB8, CHR 0xD1, CHR 0x80, CHR 0xD0, CHR 0xBE, CHR 0xD0, CHR 0xB2,
        CHR 0xD0, CHR 0xB0, CHR 0xD0, CHR 0xBD, CHR 0xD0, CHR 0xBE] @ '' STM32 Tools'',
      ''# '' @ [CHR 0xD0, CHR 0x9F, CHR 0xD1, CHR 0x80, CHR 0xD0, CHR 0xBE, CHR 0xD0,
        CHR 0xB5, CHR 0xD0, CHR 0xBA, CHR 0xD1, CHR 0x82] @ '': '' @ projName,
      ''# MCU: '' @ (if mcu cfg = [] then ''STM32F407VG'' else mcu cfg),
      ''# '' @ [CHR 0xD0, CHR 0x94, CHR 0xD0, CHR 0xB0, CHR 0xD1, CHR 0x82, CHR 0xD0,
        CHR 0xB0] @ '': '' @ now,
      ''################################################################################'',
      '''',
      ''TARGET = '' @ projName,
      ''DEBUG = 1'',
      ''OPT = -Og'',
      ''BUILD_DIR = build'',
      '''',
      ''# '' @ [CHR 0xD0, CHR 0x98, CHR 0xD1, CHR 0x81, CHR 0xD1, CHR 0x85, CHR 0xD0,
        CHR 0xBE, CHR 0xD0, CHR 0xB4, CHR 0xD0, CHR 0xBD, CHR 0xD1, CHR 0x8B, CHR 0xD0,
        CHR 0xB5] @ '' '' @ [CHR 0xD1, CHR 0x84, CHR 0xD0, CHR 0xB0, CHR 0xD0, CHR 0xB9,
        CHR 0xD0, CHR 0xBB, CHR 0xD1, CHR 0x8B],
      ''C_SOURCES = '' @ bslash,
      cSourcesList cfg @ excludeRule cfg,
      '''',
      ''# '' @ [CHR 0xD0, CHR 0xA1, CHR 0xD1, CHR 0x82, CHR 0xD0, CHR 0xB0, CHR 0xD1,
        CHR 0x80, CHR 0xD1, CHR 0x82, CHR 0xD0, CHR 0xB0, CHR 0xD0, CHR 0xBF] @ '' '' @
        [CHR 0xD1, CHR 0x84, CHR 0xD0, CHR 0xB0, CHR 0xD0, CHR 0xB9, CHR 0xD0, CHR 0xBB],
      ''ASM_SOURCES = '' @ bslash,
      tab @ startupFileName @ ''.s'',
      '''',
      ''# '' @ [CHR 0xD0, CHR 0x98, CHR 0xD0, CHR 0xBD, CHR 0xD1, CHR 0x81, CHR 0xD1,
        CHR 0x82, CHR 0xD1, CHR 0x80, CHR 0xD1, CHR 0x83, CHR 0xD0, CHR 0xBC, CHR 0xD0,
        CHR 0xB5, CHR 0xD0, CHR 0xBD, CHR 0xD1, CHR 0x82, CHR 0xD1, CHR 0x8B],
      ''PREFIX = arm-none-eabi-'',
      ''CC = $(PREFIX)gcc'',
      ''AS = $(PREFIX)gcc -x assembler-with-cpp'',
      ''CP = $(PREFIX)objcopy'',
      ''SZ = $(PREFIX)size'',
      '''',
      ''# '' @ [CHR 0xD0, CHR 0x9F, CHR 0xD0, CHR 0xB0, CHR 0xD1, CHR 0x80, CHR 0xD0,
        CHR 0xB0, CHR 0xD0, CHR 0xBC, CHR 0xD0, CHR 0xB5, CHR 0xD1, CHR 0x82, CHR 0xD1,
        CHR 0x80, CHR 0xD1, CHR 0x8B] @ '' MCU'',
      ''CPU = '' @ cpu mcuParams,
      ''FPU = '' @ fpu mcuParams,
      ''FLOAT-ABI = '' @ floatAbi mcuParams,
      ''MCU = $(CPU) -mthumb $(FPU) $(FLOAT-ABI)'',
      '''',
      ''# '' @ [CHR 0xD0, CHR 0x9E, CHR 0xD0, CHR 0xBF, CHR 0xD1, CHR 0x80, CHR 0xD0,
        CHR 0xB5, CHR 0xD0, CHR 0xB4, CHR 0xD0, CHR 0xB5, CHR 0xD0, CHR 0xBB, CHR 0xD0,
        CHR 0xB5, CHR 0xD0, CHR 0xBD, CHR 0xD0, CHR 0xB8, CHR 0xD1, CHR 0x8F] @ '' '' @
        [CHR 0xD0, CHR 0xBF, CHR 0xD1, CHR 0x80, CHR 0xD0, CHR 0xB5, CHR 0xD0, CHR 0xBF,
        CHR 0xD1, CHR 0x80, CHR 0xD0, CHR 0xBE, CHR 0xD1, CHR 0x86, CHR 0xD0, CHR 0xB5,
        CHR 0xD1, CHR 0x81, CHR 0xD1, CHR 0x81, CHR 0xD0, CHR 0xBE, CHR 0xD1, CHR 0x80,
        CHR 0xD0, CHR 0xB0],
      ''C_DEFS = '' @ bslash,
      tab @ ''-DUSE_HAL_DRIVER '' @ bslash,
      tab @ ''-D'' @ mcuDefine mcuParams,
      '''',
      ''# '' @ [CHR 0xD0, CHR 0x9F, CHR 0xD1, CHR 0x83, CHR 0xD1, CHR 0x82, CHR 0xD0,
        CHR 0xB8] @ '' include'',
      ''C_INCLUDES = '' @ bslash,
      cIncludesList cfg,
      '''',
      ''# '' @ [CHR 0xD0, CHR 0xA4, CHR 0xD0, CHR 0xBB, CHR 0xD0, CHR 0xB0, CHR 0xD0,
        CHR 0xB3, CHR 0xD0, CHR 0xB8] @ '' '' @ [CHR 0xD0, CHR 0xBA, CHR 0xD0, CHR 0xBE,
        CHR 0xD0, CHR 0xBC, CHR 0xD0, CHR 0xBF, CHR 0xD0, CHR 0xB8, CHR 0xD0, CHR 0xBB,
        CHR 0xD1, CHR 0x8F, CHR 0xD1, CHR 0x86, CHR 0xD0, CHR 0xB8, CHR 0xD0, CHR 0xB8],
      ''ASFLAGS = $(MCU) $(AS_DEFS) $(AS_INCLUDES) $(OPT) -Wall -fdata-sections -ffunction-sections'',
      ''CFLAGS = $(MCU) $(C_DEFS) $(C_INCLUDES) $(OPT) -Wall -fdata-sections -ffunction-sections'',
      '''',
      ''ifeq ($(DEBUG), 1)'',
      ''CFLAGS += -g -gdwarf-2'',
      ''endif'',
      '''',
      ''CFLAGS += -MMD -MP -MF'' @ dquote @ ''$(@:%.o=%.d)'' @ dquote,
      '''',
      ''# '' @ [CHR 0xD0, CHR 0xA4, CHR 0xD0, CHR 0xBB, CHR 0xD0, CHR 0xB0, CHR 0xD0,
        CHR 0xB3, CHR 0xD0, CHR 0xB8] @ '' '' @ [CHR 0xD0, CHR 0xBB, CHR 0xD0, CHR 0xB8,
        CHR 0xD0, CHR 0xBD, CHR 0xD0, CHR 0xBA, CHR 0xD0, CHR 0xBE, CHR 0xD0, CHR 0xB2,
        CHR 0xD0, CHR 0xBA, CHR 0xD0, CHR 0xB8],
      ''LDSCRIPT = '' @ ldscriptName,
      ''LIBS = -lc -lm -lnosys '',
      ''LDFLAGS = $(MCU) -specs=nano.specs -T$(LDSCRIPT) $(LIBS) -Wl,-Map=$(BUILD_DIR)/$(TARGET).map,--cref -Wl,--gc-sections'',
      '''',
      ''# '' @ [CHR 0xD0, CHR 0x9E, CHR 0xD1, CHR 0x81, CHR 0xD0, CHR 0xBD, CHR 0xD0,
        CHR 0xBE, CHR 0xD0, CHR 0xB2, CHR 0xD0, CHR 0xBD, CHR 0xD0, CHR 0xB0, CHR 0xD1,
        CHR 0x8F] @ '' '' @ [CHR 0xD1, CHR 0x86, CHR 0xD0, CHR 0xB5, CHR 0xD0, CHR 0xBB,
        CHR 0xD1, CHR 0x8C],
      ''all: $(BUILD_DIR)/$(TARGET).elf $(BUILD_DIR)/$(TARGET).hex $(BUILD_DIR)/$(TARGET).bin'',
      '''',
      ''# '' @ [CHR 0xD0, CHR 0x9F, CHR 0xD1, CHR 0x80, CHR 0xD0, CHR 0xB0, CHR 0xD0,
        CHR 0xB2, CHR 0xD0, CHR 0xB8, CHR 0xD0, CHR 0xBB, CHR 0xD0, CHR 0xB0] @ '' '' @
        [CHR 0xD1, CHR 0x81, CHR 0xD0, CHR 0xB1, CHR 0xD0, CHR 0xBE, CHR 0xD1, CHR 0x80,
        CHR 0xD0, CHR 0xBA, CHR 0xD0, CHR 0xB8],
      ''OBJECTS = $(addprefix $(BUILD_DIR)/,$(notdir $(C_SOURCES:.c=.o)))'',
      ''vpath %.c $(sort $(dir $(C_SOURCES)))'',
      ''OBJECTS += $(addprefix $(BUILD_DIR)/,$(notdir $(ASM_SOURCES:.s=.o)))'',
      ''vpath %.s $(sort $(dir $(ASM_SOURCES)))'',
      '''',
      ''$(BUILD_DIR)/%.o: %.c Makefile | $(BUILD_DIR) '',
      tab @
        ''$(CC) -c $(CFLAGS) -Wa,-a,-ad,-alms=$(BUILD_DIR)/$(notdir $(<:.c=.lst)) $< -o $@'',
      '''',
      ''$(BUILD_DIR)/%.o: %.s Makefile | $(BUILD_DIR)'',
      tab @ ''$(AS) -c $(CFLAGS) $< -o $@'',
      '''',
      ''$(BUILD_DIR)/$(TARGET).elf: $(OBJECTS) Makefile'',
      tab @ ''$(CC) $(OBJECTS) $(LDFLAGS) -o $@'',
      tab @ ''$(SZ) $@'',
      '''',
      ''$(BUILD_DIR)/%.hex: $(BUILD_DIR)/%.elf | $(BUILD_DIR)'',
      tab @ ''$(CP) -O ihex $< $@'',
      '''',
      ''$(BUILD_DIR)/%.bin: $(BUILD_DIR)/%.elf | $(BUILD_DIR)'',
      tab @ ''$(CP) -O binary -S $< $@'',
      '''',
      ''$(BUILD_DIR):'',
      tab @ ''mkdir -p $@'',
      '''',
      ''# '' @ [CHR 0xD0, CHR 0x9E, CHR 0xD1, CHR 0x87, CHR 0xD0, CHR 0xB8, CHR 0xD1,
        CHR 0x81, CHR 0xD1, CHR 0x82, CHR 0xD0, CHR 0xBA, CHR 0xD0, CHR 0xB0],
      ''clean:'',
      tab @ ''-rm -fR $(BUILD_DIR)'',
      '''',
      ''# '' @ [CHR 0xD0, CHR 0x9F, CHR 0xD1, CHR 0x80, CHR 0xD0, CHR 0xBE, CHR 0xD1,
        CHR 0x88, CHR 0xD0, CHR 0xB8, CHR 0xD0, CHR 0xB2, CHR 0xD0, CHR 0xBA, CHR 0xD0,
        CHR 0xB0],
      ''flash: $(BUILD_DIR)/$(TARGET).bin'',
      tab @ ''STM32_Programmer_CLI -c port=SWD -w '' @ dquote @ ''$<'' @ dquote @ '' -v -rst'',
      '''',
      ''# '' @ [CHR 0xD0, CHR 0x97, CHR 0xD0, CHR 0xB0, CHR 0xD0, CHR 0xB2, CHR 0xD0,
        CHR 0xB8, CHR 0xD1, CHR 0x81, CHR 0xD0, CHR 0xB8, CHR 0xD0, CHR 0xBC, CHR 0xD0,
        CHR 0xBE, CHR 0xD1, CHR 0x81, CHR 0xD1, CHR 0x82, CHR 0xD0, CHR 0xB8],
      ''-include $(wildcard $(BUILD_DIR)/*.d)'']"

text \<open>\<^verbatim>\<open>generateContent(projectName, startupFile, ldscript, mcuParams, projectConfig)\<close>.\<close>

definition generateContent ::
  "string \<Rightarrow> string \<Rightarrow> string \<Rightarrow> string \<Rightarrow> MCUParams \<Rightarrow> ProjectConfig \<Rightarrow> string" where
  "generateContent now projName startupFileName ldscriptName mcuParams cfg =
     joinWith nl
       (makefileLines now projName startupFileName ldscriptName mcuParams cfg)"

text \<open>
  \<^verbatim>\<open>projectConfig.startupFile || mcuParams.startupFile\<close> and
  \<^verbatim>\<open>projectConfig.ldscript || 'STM32F407XX_FLASH.ld'\<close> of \<^verbatim>\<open>generate\<close>: a
  \<^verbatim>\<open>null\<close> or empty property gives way to the fallback.
\<close>

definition startupFileFor :: "ProjectConfig \<Rightarrow> MCUParams \<Rightarrow> string" where
  "startupFileFor cfg mcuParams =
    (case cfgStartupFile cfg of
       Some s \<Rightarrow> (if s \<noteq> [] then s else startupFile mcuParams)
     | None \<Rightarrow> startupFile mcuParams)"

definition ldscriptFor :: "ProjectConfig \<Rightarrow> string" where
  "ldscriptFor cfg =
    (case ldscript cfg of
       Some s \<Rightarrow> (if s \<noteq> [] then s else ''STM32F407XX_FLASH.ld'')
     | None \<Rightarrow> ''STM32F407XX_FLASH.ld'')"

text \<open>
  \<^verbatim>\<open>getMCUParams(projectConfig.mcu)\<close> as \<^verbatim>\<open>generate\<close> calls it: the argument and the
  \<^verbatim>\<open>mcu\<close> of the configuration are the same string.
\<close>

definition mcuParamsOf :: "ProjectConfig \<Rightarrow> jsError + MCUParams" where
  "mcuParamsOf cfg =
    getMCUParams [''mcu'' \<mapsto> JStr (mcu cfg)] (Some (JStr (mcu cfg)))"

text \<open>
  \<^verbatim>\<open>generate()\<close>. \<open>ws\<close> is the workspace path, \<open>writable\<close> says whether
  \<^verbatim>\<open>writeFileSync\<close> succeeds. The result is the returned boolean with the text written
  to the Makefile, if any; an error of the lookup is not caught by \<^verbatim>\<open>generate\<close>.
\<close>

definition generate ::
  "string \<Rightarrow> bool \<Rightarrow> string option \<Rightarrow> ProjectConfig \<Rightarrow> jsError + (bool \<times> string option)" where
  "generate now writable ws cfg =
    (if ws = None \<or> ws = Some [] then Inr (False, None)
     else case mcuParamsOf cfg of
       Inl e \<Rightarrow> Inl e
     | Inr mcuParams \<Rightarrow>
         (let startupFileName = startupFileFor cfg mcuParams;
              ldscriptName = ldscriptFor cfg;
              makefileContent = generateContent now (projectName cfg) startupFileName
                                  ldscriptName mcuParams cfg
          in if writable then Inr (True, Some makefileContent) else Inr (False, None)))"

section \<open>Operations that write the linker and startup properties\<close>


text \<open>
  The body of \<^verbatim>\<open>initializeProjectConfig\<close> up to the save: the two searches, each behind
  its guard, and the flag.
\<close>

definition resolvePaths ::
  "(string \<Rightarrow> bool) \<Rightarrow> (string \<Rightarrow> jsError + string list) \<Rightarrow> manager \<Rightarrow> manager" where
  "resolvePaths existsSync findFiles m =
    (let m1 = (if \<not> truthy (projectConfig m ''ldscriptPath'') then
                 (case findLinkerScript findFiles m of
                    Some ldConfig \<Rightarrow>
                      m\<lparr>projectConfig := (projectConfig m)
                          (''ldscript'' \<mapsto> JStr (fst ldConfig),
                           ''ldscriptPath'' \<mapsto> JStr (snd ldConfig))\<rparr>
                  | None \<Rightarrow> m)
               else m);
         m2 = (if \<not> truthy (projectConfig m1 ''startupFilePath'') then
                 (case findStartupFile existsSync findFiles m1 of
                    Some startupConfig \<Rightarrow>
                      m1\<lparr>projectConfig := (projectConfig m1)
                          (''startupFile'' \<mapsto> JStr (fst startupConfig),
                           ''startupFilePath'' \<mapsto> JStr (snd startupConfig))\<rparr>
                  | None \<Rightarrow> m1)
               else m1)
     in m2\<lparr>projectConfig := (projectConfig m2)(''configInitialized'' \<mapsto> JBool True)\<rparr>)"


text \<open>
  The choices of the message that \<^verbatim>\<open>BuildManager.handleBuildError\<close> shows, and what its
  callback does to the configuration for each: the two reset choices assign \<^verbatim>\<open>null\<close> to
  both properties of a pair and save; the others leave the configuration alone.
\<close>

datatype buildErrorChoice =
  OpenOutput | CheckTools | CheckLinkerScript | CheckStartupFile | Dismissed

definition resetLinker :: "manager \<Rightarrow> manager" where
  "resetLinker m =
    m\<lparr>projectConfig := (projectConfig m)(''ldscript'' \<mapsto> JNull, ''ldscriptPath'' \<mapsto> JNull)\<rparr>"

definition resetStartup :: "manager \<Rightarrow> manager" where
  "resetStartup m =
    m\<lparr>projectConfig := (projectConfig m)
        (''startupFile'' \<mapsto> JNull, ''startupFilePath'' \<mapsto> JNull)\<rparr>"




section \<open>Auxiliary definitions for the proofs\<close>

text \<open>
  The rendered text before and after the date string: the first four template lines
  with the start of the date line, and the lines after the date line.
\<close>

definition textBeforeDate :: "string \<Rightarrow> string \<Rightarrow> string \<Rightarrow> MCUParams \<Rightarrow> ProjectConfig \<Rightarrow> string" where
  "textBeforeDate projName startupFileName ldscriptName mcuParams cfg =
    joinWith nl (take 4 (makefileLines [] projName startupFileName ldscriptName mcuParams cfg))
    @ nl @ hd (drop 4 (makefileLines [] projName startupFileName ldscriptName mcuParams cfg))"

definition textAfterDate :: "string \<Rightarrow> string \<Rightarrow> string \<Rightarrow> MCUParams \<Rightarrow> ProjectConfig \<Rightarrow> string" where
  "textAfterDate projName startupFileName ldscriptName mcuParams cfg =
    nl @ joinWith nl (drop 5 (makefileLines [] projName startupFileName ldscriptName mcuParams cfg))"

text \<open>
  Sample files and a sample JSON library for the store. \<open>overrideFile num\<close> is a
  configuration file with the one property \<^verbatim>\<open>baudRate\<close>, its value the literal
  \<open>num\<close>. \<open>savedFile num\<close> stands for the text that \<^verbatim>\<open>JSON.stringify\<close> writes for
  the Linux defaults with \<^verbatim>\<open>baudRate\<close> replaced by \<open>num\<close>; the other properties are
  abbreviated in it.
\<close>

definition overrideFile :: "string \<Rightarrow> string" where
  "overrideFile num = ''{'' @ [CHR 0x22] @ ''baudRate'' @ [CHR 0x22] @ '': '' @ num @ ''}''"

definition savedFile :: "string \<Rightarrow> string" where
  "savedFile num =
     ''{ ...defaults..., '' @ [CHR 0x22] @ ''baudRate'' @ [CHR 0x22] @ '': '' @ num @ '', ... }''"

text \<open>
  \<open>sampleParse\<close> reads these four texts as \<^verbatim>\<open>JSON.parse\<close> does (the literal
  \<^verbatim>\<open>1e999\<close> is beyond the range of a double and is read as \<^verbatim>\<open>Infinity\<close>) and
  rejects every other text; \<open>sampleStringify\<close> writes a configuration whose
  \<^verbatim>\<open>baudRate\<close> is 9600 with that number, and any other with \<^verbatim>\<open>null\<close> there, as
  \<^verbatim>\<open>JSON.stringify\<close> does for \<^verbatim>\<open>Infinity\<close>.
\<close>

definition sampleParse :: "string \<Rightarrow> jsError + jsonval" where
  "sampleParse t =
    (if t = overrideFile ''9600'' then Inr (JObj [(''baudRate'', JNum 9600)])
     else if t = overrideFile ''1e999'' then Inr (JObj [(''baudRate'', JInfinity)])
     else if t = savedFile ''9600''
       then Inr (JObj (AList.update ''baudRate'' (JNum 9600) (defaultProperties ''linux'')))
     else if t = savedFile ''null''
       then Inr (JObj (AList.update ''baudRate'' JNull (defaultProperties ''linux'')))
     else Inl SyntaxError)"

definition sampleStringify :: "config \<Rightarrow> string" where
  "sampleStringify c =
    (if c ''baudRate'' = Some (JNum 9600) then savedFile ''9600'' else savedFile ''null'')"






section \<open>Properties of the MCU lookup\<close>

lemma effectiveMcuName_nonempty_string:
  "n \<noteq> [] \<Longrightarrow> effectiveMcuName cfg (Some (JStr n)) = Some (JStr n)"
  by (simp add: effectiveMcuName_def)

lemma mcuParamsChain_table:
  "mcuParamsChain (\<lambda>k. includes_str n k) = lookupSpec n"
  by (simp add: mcuParamsChain_def lookupSpec_def mcuTable_def)

lemma getMCUParams_chain:
  assumes "getMCUParams cfg arg = Inr p"
  shows "\<exists>inc. p = mcuParamsChain inc"
  using assms
  by (auto simp: getMCUParams_def split: option.splits jsonval.splits)

text \<open>
  C4. For every non-empty MCU identifier string the lookup returns a parameter set (it
  does not fail): the set of the first table entry whose substring occurs in the
  identifier, or the STM32F407 set when no entry matches.
\<close>

theorem getMCUParams_total_first_match:
  assumes "n \<noteq> []"
  shows "getMCUParams cfg (Some (JStr n)) = Inr (lookupSpec n)"
  using assms
  by (simp add: getMCUParams_def effectiveMcuName_nonempty_string mcuParamsChain_table)

theorem getMCUParams_total_first_match_witness:
  "''STM32F401RE'' \<noteq> []
   \<and> getMCUParams Map.empty (Some (JStr ''STM32F401RE'')) = Inr (lookupSpec ''STM32F401RE'')
   \<and> startupFile (lookupSpec ''STM32F401RE'') = ''startup_stm32f401xx''"
proof -
  have ne: "''STM32F401RE'' \<noteq> []" by simp
  have "startupFile (lookupSpec ''STM32F401RE'') = ''startup_stm32f401xx''"
    by (simp add: lookupSpec_def mcuTable_def includes_str_def sublist_Cons_right)
  then show ?thesis
    using ne getMCUParams_total_first_match [OF ne, of Map.empty] by simp
qed

lemma series_chain_lowercase:
  "series (mcuParamsChain inc) \<in> {''f4'', ''f1'', ''f3'', ''f0'', ''g0'', ''l4'', ''h7''}"
  by (simp add: mcuParamsChain_def)

lemma getMemorySizes_string:
  assumes "effectiveMcuName cfg arg = Some (JStr s)" and "s \<noteq> []"
  shows "\<exists>r. getMemorySizes cfg arg = Inr r \<and> ccmram r = ''0K''"
proof -
  have eff: "effectiveMcuName cfg (Some (JStr s)) = Some (JStr s)"
    using assms(2) by (rule effectiveMcuName_nonempty_string)
  have params: "getMCUParams cfg (Some (JStr s))
                  = Inr (mcuParamsChain (\<lambda>k. includes_str s k))"
    by (simp add: getMCUParams_def eff)
  have low: "series (mcuParamsChain (\<lambda>k. includes_str s k)) \<noteq> ''F4''
             \<and> series (mcuParamsChain (\<lambda>k. includes_str s k)) \<noteq> ''F7''
             \<and> series (mcuParamsChain (\<lambda>k. includes_str s k)) \<noteq> ''H7''"
    using series_chain_lowercase [of "\<lambda>k. includes_str s k"] by auto
  show ?thesis
    using assms params low by (simp add: getMemorySizes_def Let_def)
qed

text \<open>
  C10. For every MCU identifier string, and for the default identifier used when none
  is given and the configuration holds none, \<open>getMemorySizes\<close> returns a triple whose
  \<open>ccmram\<close> is \<open>0K\<close>: the series codes of the lookup are lowercase, the comparison
  tests uppercase codes.
\<close>

theorem getMemorySizes_ccmram_zero:
  "(n \<noteq> [] \<longrightarrow>
      (\<exists>r. getMemorySizes cfg (Some (JStr n)) = Inr r \<and> ccmram r = ''0K''))
   \<and> (\<not> truthy (cfg ''mcu'') \<longrightarrow>
      (\<exists>r. getMemorySizes cfg None = Inr r \<and> ccmram r = ''0K''))
   \<and> (cfg ''mcu'' = Some (JStr n) \<longrightarrow>
      (\<exists>r. getMemorySizes cfg None = Inr r \<and> ccmram r = ''0K''))"
proof (intro conjI impI)
  assume "n \<noteq> []"
  then show "\<exists>r. getMemorySizes cfg (Some (JStr n)) = Inr r \<and> ccmram r = ''0K''"
    by (intro getMemorySizes_string [where s = n]) (simp_all add: effectiveMcuName_def)
next
  assume "\<not> truthy (cfg ''mcu'')"
  then show "\<exists>r. getMemorySizes cfg None = Inr r \<and> ccmram r = ''0K''"
    by (intro getMemorySizes_string [where s = "''STM32F407VG''"])
       (simp_all add: effectiveMcuName_def js_or_def)
next
  assume m: "cfg ''mcu'' = Some (JStr n)"
  show "\<exists>r. getMemorySizes cfg None = Inr r \<and> ccmram r = ''0K''"
  proof (cases "n = []")
    case True
    with m show ?thesis
      by (intro getMemorySizes_string [where s = "''STM32F407VG''"])
         (simp_all add: effectiveMcuName_def js_or_def)
  next
    case False
    with m show ?thesis
      by (intro getMemorySizes_string [where s = n])
         (simp_all add: effectiveMcuName_def js_or_def)
  qed
qed

theorem getMemorySizes_ccmram_zero_witness:
  "''STM32F407VGT6'' \<noteq> []
   \<and> getMemorySizes Map.empty (Some (JStr ''STM32F407VGT6''))
       = Inr \<lparr>flash = ''512K'', ram = ''128K'', ccmram = ''0K''\<rparr>
   \<and> \<not> truthy ((Map.empty :: config) ''mcu'')
   \<and> getMemorySizes Map.empty None
       = Inr \<lparr>flash = ''1024K'', ram = ''192K'', ccmram = ''0K''\<rparr>"
proof -
  have a: "getMemorySizes Map.empty (Some (JStr ''STM32F407VGT6''))
             = Inr \<lparr>flash = ''512K'', ram = ''128K'', ccmram = ''0K''\<rparr>"
    by (simp add: getMemorySizes_def getMCUParams_def effectiveMcuName_def charAt_def
        sizeMap_def mcuParamsChain_def includes_str_def sublist_Cons_right Let_def)
  have b: "getMemorySizes Map.empty None
             = Inr \<lparr>flash = ''1024K'', ram = ''192K'', ccmram = ''0K''\<rparr>"
    by (simp add: getMemorySizes_def getMCUParams_def effectiveMcuName_def js_or_def charAt_def
        sizeMap_def defaultSizes_def mcuParamsChain_def includes_str_def sublist_Cons_right Let_def)
  show ?thesis
    using a b getMemorySizes_ccmram_zero [of "''STM32F407VGT6''" Map.empty] by simp
qed

section \<open>Properties of the configuration store\<close>

lemma foldl_assign_map_add:
  "foldl assign base kvs = base ++ foldl assign Map.empty kvs"
proof (induction kvs rule: rev_induct)
  case Nil
  show ?case by simp
next
  case (snoc kv kvs)
  have "foldl assign base (kvs @ [kv]) = (foldl assign base kvs)(fst kv \<mapsto> snd kv)"
    by (simp add: assign_def)
  also have "\<dots> = (base ++ foldl assign Map.empty kvs)(fst kv \<mapsto> snd kv)"
    using snoc.IH by simp
  also have "\<dots> = base ++ (foldl assign Map.empty kvs)(fst kv \<mapsto> snd kv)"
    by simp
  also have "\<dots> = base ++ foldl assign Map.empty (kvs @ [kv])"
    by (simp add: assign_def)
  finally show ?case .
qed

lemma foldl_assign_map_of: "foldl assign Map.empty kvs = map_of (rev kvs)"
proof (induction kvs rule: rev_induct)
  case Nil
  show ?case by simp
next
  case (snoc kv kvs)
  have "foldl assign Map.empty (kvs @ [kv]) = (foldl assign Map.empty kvs)(fst kv \<mapsto> snd kv)"
    by (simp add: assign_def)
  also have "\<dots> = (map_of (rev kvs))(fst kv \<mapsto> snd kv)"
    using snoc.IH by simp
  also have "\<dots> = map_of (rev (kvs @ [kv]))"
    by (cases kv) simp
  finally show ?case .
qed

lemma map_of_rev_distinct:
  assumes "distinct (map fst kvs)"
  shows "map_of (rev kvs) = map_of kvs"
proof -
  have "distinct (map fst (rev kvs))"
    using assms by (simp add: rev_map [symmetric])
  then show ?thesis
    using assms by (simp add: map_of_inject_set)
qed

lemma spread_map_add: "spread base v = base ++ spread Map.empty v"
  unfolding spread_def by (rule foldl_assign_map_add)

lemma spread_object: "spread base (JObj kvs) = base ++ map_of (rev kvs)"
  by (simp add: spread_def foldl_assign_map_add [of base] foldl_assign_map_of)




lemma loadConfig_workspace [simp]:
  "workspacePath (loadConfig JSON_parse configFile m) = workspacePath m"
  "currentPlatform (loadConfig JSON_parse configFile m) = currentPlatform m"
  by (simp_all add: loadConfig_def Let_def split: sum.splits)

lemma hasWorkspace_loadConfig [simp]:
  "hasWorkspace (loadConfig JSON_parse configFile m) = hasWorkspace m"
  by (simp add: hasWorkspace_def)

lemma loadConfig_object:
  assumes "hasWorkspace m" and "JSON_parse fileText = Inr parsedConfig"
  shows "projectConfig (loadConfig JSON_parse (Content fileText) m)
           = spread (getDefaultConfig (currentPlatform m)) parsedConfig"
  using assms by (simp add: loadConfig_def readAndParse_def Let_def)

lemma loadConfig_is_spread:
  "\<exists>v. projectConfig (loadConfig JSON_parse configFile m)
          = spread (getDefaultConfig (currentPlatform m)) v"
proof (cases "hasWorkspace m \<and> configFile \<noteq> Absent")
  case True
  show ?thesis
  proof (cases "readAndParse JSON_parse configFile")
    case (Inl e)
    with True have "projectConfig (loadConfig JSON_parse configFile m)
                      = spread (getDefaultConfig (currentPlatform m)) JNull"
      by (simp add: loadConfig_def Let_def spread_def)
    then show ?thesis ..
  next
    case (Inr v)
    with True have "projectConfig (loadConfig JSON_parse configFile m)
                      = spread (getDefaultConfig (currentPlatform m)) v"
      by (simp add: loadConfig_def Let_def)
    then show ?thesis ..
  qed
next
  case False
  then have "projectConfig (loadConfig JSON_parse configFile m)
               = spread (getDefaultConfig (currentPlatform m)) JNull"
    by (auto simp: loadConfig_def Let_def spread_def)
  then show ?thesis ..
qed

lemma loadConfig_idem:
  "loadConfig JSON_parse configFile (loadConfig JSON_parse configFile m)
     = loadConfig JSON_parse configFile m"
  by (simp add: loadConfig_def Let_def hasWorkspace_def split: sum.splits)


text \<open>
  C5. When the file holds an override object, the configuration produced by
  \<open>loadConfig\<close> is the default configuration with exactly the override's keys
  replaced: a key that the override does not hold keeps its default value, and a key of
  the override takes the override's value.
\<close>

theorem loadConfig_merge_precedence:
  assumes "hasWorkspace m"
    and "JSON_parse fileText = Inr (JObj override)"
    and "distinct (map fst override)"
  shows "(\<forall>k. k \<notin> fst ` set override \<longrightarrow>
            projectConfig (loadConfig JSON_parse (Content fileText) m) k
              = getDefaultConfig (currentPlatform m) k)
       \<and> (\<forall>k v. (k, v) \<in> set override \<longrightarrow>
            projectConfig (loadConfig JSON_parse (Content fileText) m) k = Some v)"
proof -
  have cfg: "projectConfig (loadConfig JSON_parse (Content fileText) m)
               = getDefaultConfig (currentPlatform m) ++ map_of (rev override)"
    using assms(1,2) by (simp add: loadConfig_object spread_object)
  have absent: "map_of (rev override) k = None" if "k \<notin> fst ` set override" for k
    using that by (simp add: map_of_eq_None_iff)
  have present: "map_of (rev override) k = Some v" if "(k, v) \<in> set override" for k v
    using that assms(3) by (simp add: map_of_rev_distinct)
  show ?thesis
    using cfg absent present by (simp add: map_add_def)
qed

theorem loadConfig_merge_precedence_witness:
  "hasWorkspace \<lparr>workspacePath = Some ''/w'', currentPlatform = ''linux'',
                 projectConfig = Map.empty\<rparr>
   \<and> distinct (map fst [(''baudRate'', JNum 9600)])
   \<and> projectConfig (loadConfig (\<lambda>t. Inr (JObj [(''baudRate'', JNum 9600)])) (Content ''{}'')
        \<lparr>workspacePath = Some ''/w'', currentPlatform = ''linux'', projectConfig = Map.empty\<rparr>)
        ''baudRate'' = Some (JNum 9600)
   \<and> projectConfig (loadConfig (\<lambda>t. Inr (JObj [(''baudRate'', JNum 9600)])) (Content ''{}'')
        \<lparr>workspacePath = Some ''/w'', currentPlatform = ''linux'', projectConfig = Map.empty\<rparr>)
        ''serialPort'' = Some (JStr ''/dev/ttyUSB*'')"
proof -
  let ?m = "\<lparr>workspacePath = Some ''/w'', currentPlatform = ''linux'',
             projectConfig = Map.empty\<rparr>"
  let ?p = "\<lambda>t::string. (Inr (JObj [(''baudRate'', JNum 9600)]) :: jsError + jsonval)"
  have ws: "hasWorkspace ?m" by (simp add: hasWorkspace_def)
  have pr: "?p ''{}'' = Inr (JObj [(''baudRate'', JNum 9600)])" by simp
  have di: "distinct (map fst [(''baudRate'', JNum 9600)])" by simp
  have dflt: "getDefaultConfig ''linux'' ''serialPort'' = Some (JStr ''/dev/ttyUSB*'')"
    by (simp add: getDefaultConfig_def defaultProperties_def serialPortPattern_def)
  from loadConfig_merge_precedence
         [where m = ?m and JSON_parse = ?p and fileText = "''{}''"
            and override = "[(''baudRate'', JNum 9600)]", OF ws pr di]
  have a: "projectConfig (loadConfig ?p (Content ''{}'') ?m) ''serialPort''
             = getDefaultConfig ''linux'' ''serialPort''"
    and b: "projectConfig (loadConfig ?p (Content ''{}'') ?m) ''baudRate'' = Some (JNum 9600)"
    by simp_all
  show ?thesis using ws di a b dflt by simp
qed

text \<open>
  C6. When the configuration file exists and its text is malformed JSON (the parser
  raises), \<open>loadConfig\<close> catches the error and leaves exactly the default
  configuration in memory; the function itself returns normally.
\<close>

theorem loadConfig_malformed_defaults:
  assumes "JSON_parse fileText = Inl e"
  shows "loadConfig JSON_parse (Content fileText) m
           = m\<lparr>projectConfig := getDefaultConfig (currentPlatform m)\<rparr>"
  using assms by (simp add: loadConfig_def readAndParse_def Let_def)

theorem loadConfig_malformed_defaults_witness:
  "(\<lambda>t::string. (Inl SyntaxError :: jsError + jsonval)) ''{ mcu: '' = Inl SyntaxError
   \<and> projectConfig (loadConfig (\<lambda>t. Inl SyntaxError) (Content ''{ mcu: '')
        \<lparr>workspacePath = Some ''/w'', currentPlatform = ''win32'',
         projectConfig = [''mcu'' \<mapsto> JStr ''STM32H750'']\<rparr>) ''mcu''
       = Some (JStr ''STM32F407VGTx'')"
proof -
  have pr: "(\<lambda>t::string. (Inl SyntaxError :: jsError + jsonval)) ''{ mcu: '' = Inl SyntaxError"
    by simp
  have "getDefaultConfig ''win32'' ''mcu'' = Some (JStr ''STM32F407VGTx'')"
    by (simp add: getDefaultConfig_def defaultProperties_def)
  then show ?thesis
    using loadConfig_malformed_defaults
        [where JSON_parse = "\<lambda>t. Inl SyntaxError" and fileText = "''{ mcu: ''"
           and e = SyntaxError
           and m = "\<lparr>workspacePath = Some ''/w'', currentPlatform = ''win32'',
                     projectConfig = [''mcu'' \<mapsto> JStr ''STM32H750'']\<rparr>", OF pr]
    by simp
qed

lemma default_overlay_image:
  assumes "c = spread d v0"
  shows "d ++ (map_option f \<circ> c) = map_option f \<circ> c"
proof (rule ext)
  fix k
  have c: "c = d ++ spread Map.empty v0"
    using assms spread_map_add [of d v0] by simp
  show "(d ++ (map_option f \<circ> c)) k = (map_option f \<circ> c) k"
  proof (cases "c k")
    case None
    with c have "d k = None" by (auto simp: map_add_def split: option.splits)
    with None show ?thesis by (simp add: map_add_def)
  next
    case (Some v)
    then show ?thesis by (simp add: map_add_def)
  qed
qed

lemma loadConfig_after_save:
  assumes ws: "hasWorkspace m"
    and law: "jsonSaveLoad JSON_parse JSON_stringify (projectConfig m)"
    and sp: "projectConfig m = spread (getDefaultConfig (currentPlatform m)) v0"
  shows "projectConfig (loadConfig JSON_parse (Content (JSON_stringify (projectConfig m))) m)
           = map_option stringified \<circ> projectConfig m"
proof -
  from law obtain v where p: "JSON_parse (JSON_stringify (projectConfig m)) = Inr v"
    and e: "spread Map.empty v = map_option stringified \<circ> projectConfig m"
    by (auto simp: jsonSaveLoad_def split: sum.splits)
  have "projectConfig (loadConfig JSON_parse (Content (JSON_stringify (projectConfig m))) m)
          = spread (getDefaultConfig (currentPlatform m)) v"
    using ws p by (simp add: loadConfig_object)
  also have "\<dots> = getDefaultConfig (currentPlatform m)
                   ++ (map_option stringified \<circ> projectConfig m)"
    using spread_map_add [of "getDefaultConfig (currentPlatform m)" v] e by simp
  also have "\<dots> = map_option stringified \<circ> projectConfig m"
    using sp by (rule default_overlay_image)
  finally show ?thesis .
qed

lemma load_save_load_value:
  assumes "writable \<and> hasWorkspace m0 \<longrightarrow>
             jsonSaveLoad JSON_parse JSON_stringify
               (projectConfig (loadConfig JSON_parse configFile m0))"
  shows "(case saveConfig JSON_parse JSON_stringify writable configFile
                 (loadConfig JSON_parse configFile m0) of
            (ok, configFile2, m2) \<Rightarrow> projectConfig (loadConfig JSON_parse configFile2 m2))
         = (if writable \<and> hasWorkspace m0
            then map_option stringified \<circ> projectConfig (loadConfig JSON_parse configFile m0)
            else projectConfig (loadConfig JSON_parse configFile m0))"
proof (cases "writable \<and> hasWorkspace m0")
  case False
  then show ?thesis
    by (auto simp: saveConfig_def loadConfig_idem)
next
  case True
  let ?m1 = "loadConfig JSON_parse configFile m0"
  let ?w = "Content (JSON_stringify (projectConfig ?m1))"
  from True assms have law: "jsonSaveLoad JSON_parse JSON_stringify (projectConfig ?m1)"
    by simp
  from True have ws: "hasWorkspace ?m1" by simp
  obtain v0 where sp: "projectConfig ?m1 = spread (getDefaultConfig (currentPlatform ?m1)) v0"
    using loadConfig_is_spread [of JSON_parse configFile m0] by auto
  have reload: "projectConfig (loadConfig JSON_parse ?w ?m1)
                  = map_option stringified \<circ> projectConfig ?m1"
    using ws law sp by (rule loadConfig_after_save)
  have "saveConfig JSON_parse JSON_stringify writable configFile ?m1
          = (True, ?w, loadConfig JSON_parse ?w ?m1)"
    using True ws by (simp add: saveConfig_def Let_def)
  then show ?thesis
    using reload True by (simp add: loadConfig_idem)
qed

lemma image_unchanged:
  assumes "\<forall>k v. c k = Some v \<longrightarrow> stringified v = v"
  shows "map_option stringified \<circ> c = c"
proof (rule ext)
  fix k
  show "(map_option stringified \<circ> c) k = c k"
    using assms by (cases "c k") simp_all
qed

lemma jsonSaveLoad_finite:
  assumes "\<forall>k v. c k = Some v \<longrightarrow> stringified v = v"
  shows "jsonSaveLoad JSON_parse JSON_stringify c = jsonRoundTrip JSON_parse JSON_stringify c"
  unfolding jsonSaveLoad_def jsonRoundTrip_def image_unchanged [OF assms] by (rule refl)

text \<open>
  C7 (as amended). Load, save, load, with the file touched by nothing else. When the
  save writes the file, the configuration after the second load is that of the first
  load with every value replaced by what is read back of it: a non-finite number has
  become \<^verbatim>\<open>null\<close>. When the save does not write (no workspace, or the write fails) the
  file is as it was and the configuration is that of the first load. So the two loads
  agree whenever the first holds no non-finite number. The JSON library enters through
  \<open>jsonSaveLoad\<close> only.
\<close>

theorem load_save_load_roundtrip:
  assumes "writable \<and> hasWorkspace m0 \<longrightarrow>
             jsonSaveLoad JSON_parse JSON_stringify
               (projectConfig (loadConfig JSON_parse configFile m0))"
  shows "(case saveConfig JSON_parse JSON_stringify writable configFile
                 (loadConfig JSON_parse configFile m0) of
            (ok, configFile2, m2) \<Rightarrow> projectConfig (loadConfig JSON_parse configFile2 m2))
         = (if writable \<and> hasWorkspace m0
            then map_option stringified \<circ> projectConfig (loadConfig JSON_parse configFile m0)
            else projectConfig (loadConfig JSON_parse configFile m0))
       \<and> ((\<forall>k v. projectConfig (loadConfig JSON_parse configFile m0) k = Some v
                   \<longrightarrow> stringified v = v) \<longrightarrow>
           (case saveConfig JSON_parse JSON_stringify writable configFile
                   (loadConfig JSON_parse configFile m0) of
              (ok, configFile2, m2) \<Rightarrow> projectConfig (loadConfig JSON_parse configFile2 m2))
           = projectConfig (loadConfig JSON_parse configFile m0))"
  using load_save_load_value [OF assms] image_unchanged
  by (auto simp del: split_paired_All)

lemma defaults_finite:
  assumes "getDefaultConfig platform k = Some v"
  shows "stringified v = v"
proof -
  from assms have "(k, v) \<in> set (defaultProperties platform)"
    unfolding getDefaultConfig_def by (rule map_of_SomeD)
  then show ?thesis
    by (auto simp: defaultProperties_def)
qed

lemma distinct_defaultProperties: "distinct (map fst (defaultProperties platform))"
  by (simp add: defaultProperties_def)

lemma spread_distinct_object:
  assumes "distinct (map fst kvs)"
  shows "spread Map.empty (JObj kvs) = map_of kvs"
  using assms by (simp add: spread_object map_of_rev_distinct)

theorem load_save_load_roundtrip_witness:
  "hasWorkspace \<lparr>workspacePath = Some ''/w'', currentPlatform = ''linux'',
                 projectConfig = Map.empty\<rparr>
   \<and> projectConfig (loadConfig sampleParse (Content (overrideFile ''9600''))
        \<lparr>workspacePath = Some ''/w'', currentPlatform = ''linux'', projectConfig = Map.empty\<rparr>)
       ''baudRate'' = Some (JNum 9600)
   \<and> jsonSaveLoad sampleParse sampleStringify
        (projectConfig (loadConfig sampleParse (Content (overrideFile ''9600''))
           \<lparr>workspacePath = Some ''/w'', currentPlatform = ''linux'',
            projectConfig = Map.empty\<rparr>))
   \<and> (case saveConfig sampleParse sampleStringify True (Content (overrideFile ''9600''))
             (loadConfig sampleParse (Content (overrideFile ''9600''))
                \<lparr>workspacePath = Some ''/w'', currentPlatform = ''linux'',
                 projectConfig = Map.empty\<rparr>) of
          (ok, configFile2, m2) \<Rightarrow> projectConfig (loadConfig sampleParse configFile2 m2))
       = projectConfig (loadConfig sampleParse (Content (overrideFile ''9600''))
           \<lparr>workspacePath = Some ''/w'', currentPlatform = ''linux'',
            projectConfig = Map.empty\<rparr>)"
proof -
  let ?m = "\<lparr>workspacePath = Some ''/w'', currentPlatform = ''linux'',
             projectConfig = Map.empty\<rparr>"
  let ?f = "Content (overrideFile ''9600'')"
  let ?c1 = "projectConfig (loadConfig sampleParse ?f ?m)"
  have ws: "hasWorkspace ?m" by (simp add: hasWorkspace_def)
  have p1: "sampleParse (overrideFile ''9600'') = Inr (JObj [(''baudRate'', JNum 9600)])"
    by (simp add: sampleParse_def)
  have c1: "?c1 = (getDefaultConfig ''linux'')(''baudRate'' \<mapsto> JNum 9600)"
    using ws p1 by (simp add: loadConfig_object spread_def assign_def)
  have fin: "\<forall>k v. ?c1 k = Some v \<longrightarrow> stringified v = v"
    unfolding c1 using defaults_finite [of "''linux''"] by (auto split: if_splits)
  have p2: "sampleParse (sampleStringify ?c1)
              = Inr (JObj (AList.update ''baudRate'' (JNum 9600) (defaultProperties ''linux'')))"
    unfolding c1 by (simp add: sampleStringify_def sampleParse_def savedFile_def overrideFile_def)
  have img: "map_option stringified \<circ> ?c1 = ?c1"
    using fin by (rule image_unchanged)
  have sp: "spread Map.empty
              (JObj (AList.update ''baudRate'' (JNum 9600) (defaultProperties ''linux''))) = ?c1"
    unfolding c1
    by (simp add: spread_distinct_object distinct_update distinct_defaultProperties
        update_conv' getDefaultConfig_def)
  have law: "jsonSaveLoad sampleParse sampleStringify ?c1"
    by (simp only: jsonSaveLoad_def p2 sum.case sp img)
  then have hyp: "True \<and> hasWorkspace ?m \<longrightarrow> jsonSaveLoad sampleParse sampleStringify ?c1"
    by simp
  from load_save_load_roundtrip
         [where writable = True and ?m0.0 = ?m and JSON_parse = sampleParse
            and JSON_stringify = sampleStringify and configFile = ?f, OF hyp] fin
  have "(case saveConfig sampleParse sampleStringify True ?f (loadConfig sampleParse ?f ?m) of
           (ok, configFile2, m2) \<Rightarrow> projectConfig (loadConfig sampleParse configFile2 m2))
        = ?c1"
    by blast
  with ws law c1 show ?thesis by simp
qed

text \<open>
  The claim as stated fails for a file with a numeric literal beyond the range of a
  double: \<^verbatim>\<open>{"baudRate": 1e999}\<close> is loaded with \<^verbatim>\<open>baudRate\<close> \<^verbatim>\<open>Infinity\<close>, the
  save writes \<^verbatim>\<open>null\<close> for it, and the second load has \<^verbatim>\<open>baudRate\<close> \<^verbatim>\<open>null\<close>.
\<close>

theorem load_save_load_infinity_counterexample:
  "projectConfig (loadConfig sampleParse (Content (overrideFile ''1e999''))
        \<lparr>workspacePath = Some ''/w'', currentPlatform = ''linux'', projectConfig = Map.empty\<rparr>)
       ''baudRate'' = Some JInfinity
   \<and> jsonSaveLoad sampleParse sampleStringify
        (projectConfig (loadConfig sampleParse (Content (overrideFile ''1e999''))
           \<lparr>workspacePath = Some ''/w'', currentPlatform = ''linux'',
            projectConfig = Map.empty\<rparr>))
   \<and> (case saveConfig sampleParse sampleStringify True (Content (overrideFile ''1e999''))
             (loadConfig sampleParse (Content (overrideFile ''1e999''))
                \<lparr>workspacePath = Some ''/w'', currentPlatform = ''linux'',
                 projectConfig = Map.empty\<rparr>) of
          (ok, configFile2, m2) \<Rightarrow> projectConfig (loadConfig sampleParse configFile2 m2))
       ''baudRate'' = Some JNull"
proof -
  let ?m = "\<lparr>workspacePath = Some ''/w'', currentPlatform = ''linux'',
             projectConfig = Map.empty\<rparr>"
  let ?f = "Content (overrideFile ''1e999'')"
  let ?c1 = "projectConfig (loadConfig sampleParse ?f ?m)"
  let ?d = "getDefaultConfig ''linux''"
  have ws: "hasWorkspace ?m" by (simp add: hasWorkspace_def)
  have p1: "sampleParse (overrideFile ''1e999'') = Inr (JObj [(''baudRate'', JInfinity)])"
    by (simp add: sampleParse_def overrideFile_def)
  have c1: "?c1 = ?d(''baudRate'' \<mapsto> JInfinity)"
    using ws p1 by (simp add: loadConfig_object spread_def assign_def)
  have first: "?c1 ''baudRate'' = Some JInfinity" by (simp add: c1)
  have p2: "sampleParse (sampleStringify ?c1)
              = Inr (JObj (AList.update ''baudRate'' JNull (defaultProperties ''linux'')))"
    unfolding c1 by (simp add: sampleStringify_def sampleParse_def savedFile_def overrideFile_def)
  have "map_option stringified \<circ> ?d = ?d"
    using defaults_finite [of "''linux''"] by (intro image_unchanged) blast
  then have img: "map_option stringified \<circ> ?c1 = ?d(''baudRate'' \<mapsto> JNull)"
    unfolding c1 by (auto simp: fun_eq_iff)
  have sp: "spread Map.empty
              (JObj (AList.update ''baudRate'' JNull (defaultProperties ''linux'')))
            = ?d(''baudRate'' \<mapsto> JNull)"
    by (simp add: spread_distinct_object distinct_update distinct_defaultProperties
        update_conv' getDefaultConfig_def)
  have law: "jsonSaveLoad sampleParse sampleStringify ?c1"
    by (simp only: jsonSaveLoad_def p2 sum.case sp img)
  have second: "(case saveConfig sampleParse sampleStringify True ?f
                        (loadConfig sampleParse ?f ?m) of
                   (ok, configFile2, m2) \<Rightarrow> projectConfig (loadConfig sampleParse configFile2 m2))
                  ''baudRate'' = Some JNull"
    by code_simp
  from first law second show ?thesis by (simp only: simp_thms)
qed

section \<open>Properties of the resolver\<close>

lemma dedupe_step_set:
  "set (foldl (\<lambda>acc x. if x \<in> set acc then acc else acc @ [x]) acc xs) = set acc \<union> set xs"
  by (induction xs arbitrary: acc) auto

lemma dedupe_step_prefix:
  "\<exists>ys. foldl (\<lambda>acc x. if x \<in> set acc then acc else acc @ [x]) acc xs = acc @ ys"
  by (induction xs arbitrary: acc) (auto, metis append.assoc)

lemma set_dedupe [simp]: "set (dedupe xs) = set xs"
  by (simp add: dedupe_def dedupe_step_set)

lemma dedupe_Nil_iff [simp]: "dedupe xs = [] \<longleftrightarrow> xs = []"
  using set_dedupe [of xs] by (metis set_empty)

lemma hd_dedupe: "xs \<noteq> [] \<Longrightarrow> hd (dedupe xs) = hd xs"
proof (cases xs)
  case Nil
  then show "xs \<noteq> [] \<Longrightarrow> hd (dedupe xs) = hd xs" by simp
next
  case (Cons x rest)
  obtain ys where "foldl (\<lambda>acc x. if x \<in> set acc then acc else acc @ [x]) [x] rest = [x] @ ys"
    using dedupe_step_prefix [of "[x]" rest] by blast
  with Cons show "hd (dedupe xs) = hd xs" by (simp add: dedupe_def)
qed

lemma find_first_split:
  assumes "find P xs = Some x"
  shows "P x \<and> (\<exists>pre post. xs = pre @ x # post \<and> (\<forall>y\<in>set pre. \<not> P y))"
  using assms
proof (induction xs)
  case Nil
  then show ?case by simp
next
  case (Cons a xs)
  show ?case
  proof (cases "P a")
    case True
    with Cons.prems have "x = a" by simp
    moreover have "a # xs = [] @ a # xs \<and> (\<forall>y\<in>set []. \<not> P y)" by simp
    ultimately show ?thesis using True by blast
  next
    case False
    with Cons.prems have "find P xs = Some x" by simp
    from Cons.IH [OF this] obtain pre post
      where "P x" and "xs = pre @ x # post" and "\<forall>y\<in>set pre. \<not> P y" by blast
    moreover from this False
    have "a # xs = (a # pre) @ x # post \<and> (\<forall>y\<in>set (a # pre). \<not> P y)" by simp
    ultimately show ?thesis by blast
  qed
qed

lemma suitableStartup_empty_path:
  "\<not> suitableStartup (mcuParamsChain inc) []"
  by (simp add: suitableStartup_def mcuParamsChain_def includes_str_def toLowerCase_def)

lemma findStartupFile_fallback_value:
  assumes "hasWorkspace m"
    and "getMCUParams (projectConfig m) (projectConfig m ''mcu'') = Inr p"
    and "find existsSync (startupPaths (the (workspacePath m)) p) = None"
    and "searchAll findFiles (startupPatterns p) = Inr found"
    and "found \<noteq> []"
  shows "findStartupFile existsSync findFiles m
           = Some (startupName (preferredOrFirst (find (suitableStartup p) (dedupe found))
                                  (dedupe found)),
                   preferredOrFirst (find (suitableStartup p) (dedupe found)) (dedupe found))"
  using assms by (simp add: findStartupFile_def Let_def)

text \<open>
  C8 (as amended). When the probe of the fixed places finds no file and the search
  discovers at least one, the fallback returns a discovered file. If some discovered
  file is suitable (its path contains, case-sensitively, the startup-file token or the
  define token in lower case with its first \<open>xx\<close> removed) it returns the first
  suitable one in discovery order; if none is suitable it returns the first discovered
  file.
\<close>

theorem findStartupFile_fallback_first_suitable:
  assumes ws: "hasWorkspace m"
    and params: "getMCUParams (projectConfig m) (projectConfig m ''mcu'') = Inr p"
    and probe: "find existsSync (startupPaths (the (workspacePath m)) p) = None"
    and search: "searchAll findFiles (startupPatterns p) = Inr found"
    and ne: "found \<noteq> []"
  shows "\<exists>path. findStartupFile existsSync findFiles m = Some (startupName path, path)
           \<and> path \<in> set found
           \<and> ((\<exists>f\<in>set found. suitableStartup p f) \<longrightarrow>
                 suitableStartup p path
                 \<and> (\<exists>pre post. dedupe found = pre @ path # post
                       \<and> (\<forall>f\<in>set pre. \<not> suitableStartup p f)))
           \<and> ((\<forall>f\<in>set found. \<not> suitableStartup p f) \<longrightarrow> path = hd found)"
proof -
  let ?files = "dedupe found"
  let ?sel = "preferredOrFirst (find (suitableStartup p) ?files) ?files"
  have val: "findStartupFile existsSync findFiles m = Some (startupName ?sel, ?sel)"
    using ws params probe search ne by (rule findStartupFile_fallback_value)
  have nonempty: "?files \<noteq> []" using ne by simp
  show ?thesis
  proof (cases "find (suitableStartup p) ?files")
    case None
    then have none: "\<forall>f\<in>set found. \<not> suitableStartup p f"
      by (simp add: find_None_iff)
    have sel: "?sel = hd found"
      using None ne by (simp add: preferredOrFirst_def hd_dedupe)
    have "hd found \<in> set found" using ne by simp
    with val sel none show ?thesis by auto
  next
    case (Some x)
    from find_first_split [OF Some] obtain pre post
      where sx: "suitableStartup p x" and split: "?files = pre @ x # post"
        and before: "\<forall>f\<in>set pre. \<not> suitableStartup p f" by blast
    obtain inc where "p = mcuParamsChain inc"
      using getMCUParams_chain [OF params] by blast
    with sx have "x \<noteq> []" using suitableStartup_empty_path by blast
    with Some have sel: "?sel = x" by (simp add: preferredOrFirst_def)
    have "x \<in> set ?files" using split by simp
    then have mem: "x \<in> set found" by simp
    from val sel mem sx split before show ?thesis by auto
  qed
qed

theorem findStartupFile_fallback_first_suitable_witness:
  "hasWorkspace \<lparr>workspacePath = Some ''/w'', currentPlatform = ''linux'',
                 projectConfig = [''mcu'' \<mapsto> JStr ''STM32F407VGTx'']\<rparr>
   \<and> find (\<lambda>q. False) (startupPaths ''/w'' (lookupSpec ''STM32F407VGTx'')) = None
   \<and> findStartupFile (\<lambda>q. False)
        (\<lambda>pattern. Inr [''/w/gen/startup_generic.s'', ''/w/dev/startup_stm32f407vg.s''])
        \<lparr>workspacePath = Some ''/w'', currentPlatform = ''linux'',
         projectConfig = [''mcu'' \<mapsto> JStr ''STM32F407VGTx'']\<rparr>
       = Some (''startup_stm32f407vg'', ''/w/dev/startup_stm32f407vg.s'')"
proof -
  let ?m = "\<lparr>workspacePath = Some ''/w'', currentPlatform = ''linux'',
             projectConfig = [''mcu'' \<mapsto> JStr ''STM32F407VGTx'']\<rparr>"
  let ?ff = "\<lambda>pattern::string. (Inr [''/w/gen/startup_generic.s'',
                ''/w/dev/startup_stm32f407vg.s''] :: jsError + string list)"
  let ?p = "lookupSpec ''STM32F407VGTx''"
  let ?found = "[''/w/gen/startup_generic.s'', ''/w/dev/startup_stm32f407vg.s'',
                 ''/w/gen/startup_generic.s'', ''/w/dev/startup_stm32f407vg.s'',
                 ''/w/gen/startup_generic.s'', ''/w/dev/startup_stm32f407vg.s'',
                 ''/w/gen/startup_generic.s'', ''/w/dev/startup_stm32f407vg.s'']"
  have ws: "hasWorkspace ?m" by (simp add: hasWorkspace_def)
  have params: "getMCUParams (projectConfig ?m) (projectConfig ?m ''mcu'') = Inr ?p"
    by (simp add: getMCUParams_def effectiveMcuName_def mcuParamsChain_table)
  have probe: "find (\<lambda>q. False) (startupPaths (the (workspacePath ?m)) ?p) = None"
    by (simp add: find_None_iff)
  have search: "searchAll ?ff (startupPatterns ?p) = Inr ?found"
    by (simp add: startupPatterns_def)
  have ne: "?found \<noteq> []" by simp
  have suit2: "suitableStartup ?p ''/w/dev/startup_stm32f407vg.s''"
    by code_simp
  have suit1: "\<not> suitableStartup ?p ''/w/gen/startup_generic.s''"
    by code_simp
  have dd: "dedupe ?found = [''/w/gen/startup_generic.s'', ''/w/dev/startup_stm32f407vg.s'']"
    by code_simp
  have nm: "startupName ''/w/dev/startup_stm32f407vg.s'' = ''startup_stm32f407vg''"
    by code_simp
  from findStartupFile_fallback_first_suitable [OF ws params probe search ne]
  obtain path where r: "findStartupFile (\<lambda>q. False) ?ff ?m = Some (startupName path, path)"
    and mem: "path \<in> set ?found"
    and s: "(\<exists>f\<in>set ?found. suitableStartup ?p f) \<longrightarrow> suitableStartup ?p path"
    by blast
  from s suit2 have "suitableStartup ?p path" by auto
  with mem suit1 have "path = ''/w/dev/startup_stm32f407vg.s''" by auto
  with r nm ws probe show ?thesis by simp
qed

text \<open>
  The claim as the specification words it fails: with the default MCU, the second
  discovered file contains the startup-file token when case is ignored, the first
  contains neither token even so, and the fallback still returns the first.
\<close>

theorem findStartupFile_case_insensitive_counterexample:
  "findStartupFile (\<lambda>q. False)
        (\<lambda>pattern. Inr [''/w/x/startup_a.s'', ''/w/STARTUP_STM32F407XX/startup_b.s''])
        \<lparr>workspacePath = Some ''/w'', currentPlatform = ''linux'',
         projectConfig = [''mcu'' \<mapsto> JStr ''STM32F407VGTx'']\<rparr>
       = Some (''startup_a'', ''/w/x/startup_a.s'')
   \<and> includes_str (toLowerCase ''/w/STARTUP_STM32F407XX/startup_b.s'')
         (toLowerCase ''startup_stm32f407xx'')
   \<and> \<not> includes_str (toLowerCase ''/w/x/startup_a.s'') (toLowerCase ''startup_stm32f407xx'')
   \<and> \<not> includes_str (toLowerCase ''/w/x/startup_a.s'') (toLowerCase ''STM32F407xx'')"
  by code_simp

section \<open>Properties of the Makefile generator\<close>

lemma joinWith_append:
  assumes "xs \<noteq> []" and "ys \<noteq> []"
  shows "joinWith sep (xs @ ys) = joinWith sep xs @ sep @ joinWith sep ys"
  using assms
proof (induction sep xs rule: joinWith.induct)
  case (1 sep)
  then show ?case by simp
next
  case (2 sep x)
  then show ?case by (cases ys) simp_all
next
  case (3 sep x y zs)
  then show ?case by simp
qed

text \<open>
  The lines of the template around the date line: the four lines before it and the
  lines after it do not depend on the clock.
\<close>

lemma makefileLines_date_line:
  "makefileLines now projName startupFileName ldscriptName mcuParams cfg
     = take 4 (makefileLines [] projName startupFileName ldscriptName mcuParams cfg)
       @ [hd (drop 4 (makefileLines [] projName startupFileName ldscriptName mcuParams cfg))
            @ now]
       @ drop 5 (makefileLines [] projName startupFileName ldscriptName mcuParams cfg)"
  by (simp add: makefileLines_def)

lemma makefileLines_length:
  "length (makefileLines now projName startupFileName ldscriptName mcuParams cfg) = 95"
  by (simp add: makefileLines_def)

lemma generateContent_split:
  "generateContent now projName startupFileName ldscriptName mcuParams cfg
     = textBeforeDate projName startupFileName ldscriptName mcuParams cfg
       @ now
       @ textAfterDate projName startupFileName ldscriptName mcuParams cfg"
proof -
  let ?L = "makefileLines [] projName startupFileName ldscriptName mcuParams cfg"
  have len: "length ?L = 95" by (rule makefileLines_length)
  have a: "take 4 ?L \<noteq> []" using len by auto
  have b: "drop 5 ?L \<noteq> []" using len by auto
  have "generateContent now projName startupFileName ldscriptName mcuParams cfg
          = joinWith nl (take 4 ?L @ ([hd (drop 4 ?L) @ now] @ drop 5 ?L))"
    unfolding generateContent_def
    using makefileLines_date_line [of now projName startupFileName ldscriptName mcuParams cfg]
    by simp
  also have "\<dots> = joinWith nl (take 4 ?L) @ nl @ joinWith nl ([hd (drop 4 ?L) @ now] @ drop 5 ?L)"
    using a by (intro joinWith_append) simp_all
  also have "joinWith nl ([hd (drop 4 ?L) @ now] @ drop 5 ?L)
               = joinWith nl [hd (drop 4 ?L) @ now] @ nl @ joinWith nl (drop 5 ?L)"
    using b by (intro joinWith_append) simp_all
  finally show ?thesis
    by (simp add: textBeforeDate_def textAfterDate_def)
qed

text \<open>
  C1 (as amended). The clock reading is the only input of the rendering besides its
  arguments: for fixed arguments there are two texts, one before and one after the date,
  such that every call returns the first, the date string of that call, and the second.
  Two calls with equal arguments and the same date string return the same text, and any
  two calls differ in the date line at most.
\<close>

theorem generateContent_deterministic_up_to_date:
  "\<exists>before after. \<forall>now.
      generateContent now projName startupFileName ldscriptName mcuParams cfg
        = before @ now @ after"
  using generateContent_split by blast

text \<open>
  The claim as stated fails: two calls with the same arguments, one second apart,
  return different texts.
\<close>

theorem generateContent_clock_counterexample:
  "generateContent ''1/2/2026, 10:00:00 AM'' ''STM32F407VGT6'' ''startup_stm32f407xx''
       ''STM32F407XX_FLASH.ld'' (lookupSpec ''STM32F407VGTx'')
       \<lparr>projectName = ''STM32F407VGT6'', mcu = ''STM32F407VGTx'',
        sourceDirs = [''Core/Src''], excludeFiles = [], includeDirs = [''Core/Inc''],
        ldscript = None, cfgStartupFile = None\<rparr>
   \<noteq> generateContent ''1/2/2026, 10:00:01 AM'' ''STM32F407VGT6'' ''startup_stm32f407xx''
       ''STM32F407XX_FLASH.ld'' (lookupSpec ''STM32F407VGTx'')
       \<lparr>projectName = ''STM32F407VGT6'', mcu = ''STM32F407VGTx'',
        sourceDirs = [''Core/Src''], excludeFiles = [], includeDirs = [''Core/Inc''],
        ldscript = None, cfgStartupFile = None\<rparr>"
  by (simp add: generateContent_split)

section \<open>Properties of the linker search and of the write-back\<close>

lemma searchAll_empty:
  assumes "\<forall>pattern\<in>set patterns. findFiles pattern = Inr []"
  shows "searchAll findFiles patterns = Inr []"
  using assms by (induction patterns) simp_all

lemma searchAll_members:
  assumes "searchAll findFiles patterns = Inr found" and "f \<in> set found"
  shows "\<exists>pattern\<in>set patterns. \<exists>files. findFiles pattern = Inr files \<and> f \<in> set files"
  using assms
proof (induction patterns arbitrary: found)
  case Nil
  then show ?case by simp
next
  case (Cons pattern patterns)
  from Cons.prems(1) obtain files others
    where here: "findFiles pattern = Inr files"
      and there: "searchAll findFiles patterns = Inr others"
      and all: "found = files @ others"
    by (auto split: sum.splits)
  show ?case
  proof (cases "f \<in> set files")
    case True
    with here show ?thesis by auto
  next
    case False
    with Cons.prems(2) all have "f \<in> set others" by simp
    from Cons.IH [OF there this] show ?thesis by auto
  qed
qed

lemma preferredOrFirst_member:
  assumes "found \<noteq> []" and "\<And>p. preferred = Some p \<Longrightarrow> p \<in> set found"
  shows "preferredOrFirst preferred found \<in> set found"
  using assms by (auto simp: preferredOrFirst_def split: option.splits)

lemma find_member: "find P xs = Some x \<Longrightarrow> x \<in> set xs"
  by (induction xs) (auto split: if_splits)

lemma findLinkerScript_result:
  assumes "findLinkerScript findFiles m = Some (name, path)"
  shows "name = basename path
         \<and> (\<exists>found. searchAll findFiles linkerPatterns = Inr found \<and> path \<in> set found)"
proof -
  from assms obtain found where s: "searchAll findFiles linkerPatterns = Inr found"
    by (auto simp: findLinkerScript_def split: if_splits sum.splits)
  from assms s have ne: "dedupe found \<noteq> []"
    by (auto simp: findLinkerScript_def Let_def split: if_splits)
  have first: "hd (dedupe found) \<in> set found"
    using ne by (metis hd_in_set set_dedupe)
  have pref: "preferredOrFirst (find P (dedupe found)) (dedupe found) \<in> set found" for P
    using preferredOrFirst_member [OF ne, of "find P (dedupe found)"] find_member [of P "dedupe found"]
    by auto
  from assms s ne first pref have "name = basename path \<and> path \<in> set found"
    by (auto simp: findLinkerScript_def Let_def
             split: if_splits option.splits jsonval.splits)
  with s show ?thesis by blast
qed

lemma findLinkerScript_nothing_found:
  assumes "\<forall>pattern\<in>set linkerPatterns. findFiles pattern = Inr []"
  shows "findLinkerScript findFiles m = None"
  using searchAll_empty [OF assms] by (simp add: findLinkerScript_def dedupe_def)

lemma resolvePaths_linker_unchanged:
  assumes "findLinkerScript findFiles m = None"
  shows "projectConfig (resolvePaths existsSync findFiles m) ''ldscript''
           = projectConfig m ''ldscript''
         \<and> projectConfig (resolvePaths existsSync findFiles m) ''ldscriptPath''
           = projectConfig m ''ldscriptPath''"
  using assms by (simp add: resolvePaths_def Let_def split: option.splits)

text \<open>
  C3 (as amended). If the search yields no file for any linker pattern,
  \<open>findLinkerScript\<close> returns \<open>None\<close> and the write-back of
  \<^verbatim>\<open>initializeProjectConfig\<close> leaves \<^verbatim>\<open>ldscript\<close> and \<^verbatim>\<open>ldscriptPath\<close> as they were;
  a result that is not \<open>None\<close> is always the path of a file that the search found, with
  its base name. The Makefile generator is the exception to "never a made-up name": for
  a configuration without \<^verbatim>\<open>ldscript\<close> it renders the fixed name
  \<^verbatim>\<open>STM32F407XX_FLASH.ld\<close>.
\<close>

theorem findLinkerScript_null_safety:
  "((\<forall>pattern\<in>set linkerPatterns. findFiles pattern = Inr []) \<longrightarrow>
       findLinkerScript findFiles m = None
       \<and> projectConfig (resolvePaths existsSync findFiles m) ''ldscript''
           = projectConfig m ''ldscript''
       \<and> projectConfig (resolvePaths existsSync findFiles m) ''ldscriptPath''
           = projectConfig m ''ldscriptPath'')
   \<and> (\<forall>name path. findLinkerScript findFiles m = Some (name, path) \<longrightarrow>
         name = basename path
         \<and> (\<exists>pattern\<in>set linkerPatterns. \<exists>files.
               findFiles pattern = Inr files \<and> path \<in> set files))
   \<and> (ldscript cfg = None \<longrightarrow> ldscriptFor cfg = ''STM32F407XX_FLASH.ld'')"
proof (intro conjI impI allI)
  assume none: "\<forall>pattern\<in>set linkerPatterns. findFiles pattern = Inr []"
  then show n: "findLinkerScript findFiles m = None"
    by (rule findLinkerScript_nothing_found)
  from resolvePaths_linker_unchanged [OF n]
  show "projectConfig (resolvePaths existsSync findFiles m) ''ldscript''
          = projectConfig m ''ldscript''"
    and "projectConfig (resolvePaths existsSync findFiles m) ''ldscriptPath''
          = projectConfig m ''ldscriptPath''"
    by simp_all
next
  fix name path
  assume r: "findLinkerScript findFiles m = Some (name, path)"
  from findLinkerScript_result [OF r] show "name = basename path" by simp
  from findLinkerScript_result [OF r] obtain found
    where "searchAll findFiles linkerPatterns = Inr found" and "path \<in> set found" by blast
  then show "\<exists>pattern\<in>set linkerPatterns. \<exists>files.
               findFiles pattern = Inr files \<and> path \<in> set files"
    by (rule searchAll_members)
next
  assume "ldscript cfg = None"
  then show "ldscriptFor cfg = ''STM32F407XX_FLASH.ld''"
    by (simp add: ldscriptFor_def)
qed

theorem findLinkerScript_null_safety_witness:
  "findLinkerScript (\<lambda>p. Inr [])
        \<lparr>workspacePath = Some ''/w'', currentPlatform = ''linux'',
         projectConfig = getDefaultConfig ''linux''\<rparr> = None
   \<and> findLinkerScript (\<lambda>p. if p = ''**/*.ld'' then Inr [''/w/STM32F407VGTX_FLASH.ld''] else Inr [])
        \<lparr>workspacePath = Some ''/w'', currentPlatform = ''linux'',
         projectConfig = getDefaultConfig ''linux''\<rparr>
       = Some (''STM32F407VGTX_FLASH.ld'', ''/w/STM32F407VGTX_FLASH.ld'')
   \<and> ldscript \<lparr>projectName = ''P'', mcu = ''STM32F407VGTx'', sourceDirs = [],
                excludeFiles = [], includeDirs = [], ldscript = None,
                cfgStartupFile = None\<rparr> = None
   \<and> ldscriptFor \<lparr>projectName = ''P'', mcu = ''STM32F407VGTx'', sourceDirs = [],
                   excludeFiles = [], includeDirs = [], ldscript = None,
                   cfgStartupFile = None\<rparr> = ''STM32F407XX_FLASH.ld''"
proof -
  let ?m = "\<lparr>workspacePath = Some ''/w'', currentPlatform = ''linux'',
             projectConfig = getDefaultConfig ''linux''\<rparr>"
  let ?none = "\<lambda>p::string. (Inr [] :: jsError + string list)"
  let ?one = "\<lambda>p::string. if p = ''**/*.ld'' then Inr [''/w/STM32F407VGTX_FLASH.ld'']
                             else (Inr [] :: jsError + string list)"
  let ?cfg = "\<lparr>projectName = ''P'', mcu = ''STM32F407VGTx'', sourceDirs = [],
               excludeFiles = [], includeDirs = [], ldscript = None,
               cfgStartupFile = None\<rparr>"
  have h: "\<forall>pattern\<in>set linkerPatterns. ?none pattern = Inr []" by simp
  have found: "findLinkerScript ?one ?m
                 = Some (''STM32F407VGTX_FLASH.ld'', ''/w/STM32F407VGTX_FLASH.ld'')"
    by code_simp
  have l: "ldscript ?cfg = None" by simp
  from findLinkerScript_null_safety [of ?none ?m "\<lambda>q. False" ?cfg] h l
  have "findLinkerScript ?none ?m = None" and "ldscriptFor ?cfg = ''STM32F407XX_FLASH.ld''"
    by simp_all
  with found l show ?thesis by simp
qed

text \<open>
  The claim as stated fails at the generator: in a workspace without any linker script
  \<open>findLinkerScript\<close> returns \<open>None\<close>, the configuration has no \<^verbatim>\<open>ldscript\<close>, and
  \<^verbatim>\<open>generate\<close> still writes a Makefile whose linker line names
  \<^verbatim>\<open>STM32F407XX_FLASH.ld\<close>.
\<close>

theorem generate_fabricates_ldscript_counterexample:
  "findLinkerScript (\<lambda>p. Inr [])
        \<lparr>workspacePath = Some ''/w'', currentPlatform = ''linux'',
         projectConfig = getDefaultConfig ''linux''\<rparr> = None
   \<and> generate ''1/2/2026, 10:00:00 AM'' True (Some ''/w'')
        \<lparr>projectName = ''STM32F407VGT6'', mcu = ''STM32F407VGTx'',
         sourceDirs = [''Core/Src''], excludeFiles = [], includeDirs = [''Core/Inc''],
         ldscript = None, cfgStartupFile = None\<rparr>
       = Inr (True, Some (generateContent ''1/2/2026, 10:00:00 AM'' ''STM32F407VGT6''
                ''startup_stm32f407xx'' ''STM32F407XX_FLASH.ld'' (lookupSpec ''STM32F407VGTx'')
                \<lparr>projectName = ''STM32F407VGT6'', mcu = ''STM32F407VGTx'',
                 sourceDirs = [''Core/Src''], excludeFiles = [], includeDirs = [''Core/Inc''],
                 ldscript = None, cfgStartupFile = None\<rparr>))
   \<and> ''LDSCRIPT = STM32F407XX_FLASH.ld''
       \<in> set (makefileLines ''1/2/2026, 10:00:00 AM'' ''STM32F407VGT6''
                ''startup_stm32f407xx'' ''STM32F407XX_FLASH.ld'' (lookupSpec ''STM32F407VGTx'')
                \<lparr>projectName = ''STM32F407VGT6'', mcu = ''STM32F407VGTx'',
                 sourceDirs = [''Core/Src''], excludeFiles = [], includeDirs = [''Core/Inc''],
                 ldscript = None, cfgStartupFile = None\<rparr>)"
proof -
  have a: "findLinkerScript (\<lambda>p. Inr [])
        \<lparr>workspacePath = Some ''/w'', currentPlatform = ''linux'',
         projectConfig = getDefaultConfig ''linux''\<rparr> = None"
    by (simp add: findLinkerScript_def linkerPatterns_def dedupe_def)
  have p: "mcuParamsOf \<lparr>projectName = ''STM32F407VGT6'', mcu = ''STM32F407VGTx'',
         sourceDirs = [''Core/Src''], excludeFiles = [], includeDirs = [''Core/Inc''],
         ldscript = None, cfgStartupFile = None\<rparr> = Inr (lookupSpec ''STM32F407VGTx'')"
    by (simp add: mcuParamsOf_def getMCUParams_def effectiveMcuName_def mcuParamsChain_table)
  have s: "startupFile (lookupSpec ''STM32F407VGTx'') = ''startup_stm32f407xx''"
    by (simp add: lookupSpec_def mcuTable_def includes_str_def sublist_Cons_right)
  have b: "generate ''1/2/2026, 10:00:00 AM'' True (Some ''/w'')
        \<lparr>projectName = ''STM32F407VGT6'', mcu = ''STM32F407VGTx'',
         sourceDirs = [''Core/Src''], excludeFiles = [], includeDirs = [''Core/Inc''],
         ldscript = None, cfgStartupFile = None\<rparr>
       = Inr (True, Some (generateContent ''1/2/2026, 10:00:00 AM'' ''STM32F407VGT6''
                ''startup_stm32f407xx'' ''STM32F407XX_FLASH.ld'' (lookupSpec ''STM32F407VGTx'')
                \<lparr>projectName = ''STM32F407VGT6'', mcu = ''STM32F407VGTx'',
                 sourceDirs = [''Core/Src''], excludeFiles = [], includeDirs = [''Core/Inc''],
                 ldscript = None, cfgStartupFile = None\<rparr>))"
    by (simp add: generate_def p s startupFileFor_def ldscriptFor_def)
  have c: "''LDSCRIPT = STM32F407XX_FLASH.ld''
       \<in> set (makefileLines ''1/2/2026, 10:00:00 AM'' ''STM32F407VGT6''
                ''startup_stm32f407xx'' ''STM32F407XX_FLASH.ld'' (lookupSpec ''STM32F407VGTx'')
                \<lparr>projectName = ''STM32F407VGT6'', mcu = ''STM32F407VGTx'',
                 sourceDirs = [''Core/Src''], excludeFiles = [], includeDirs = [''Core/Inc''],
                 ldscript = None, cfgStartupFile = None\<rparr>)"
    by (simp add: makefileLines_def)
  from a b c show ?thesis by simp
qed

section \<open>The pairing of the linker and startup properties\<close>









lemma reset_workspace [simp]:
  "hasWorkspace (resetLinker m) = hasWorkspace m"
  "hasWorkspace (resetStartup m) = hasWorkspace m"
  by (simp_all add: resetLinker_def resetStartup_def hasWorkspace_def)






lemma resolvePaths_platform [simp]:
  "currentPlatform (resolvePaths existsSync findFiles m) = currentPlatform m"
  by (simp add: resolvePaths_def Let_def split: option.splits)



end
